theory Spec2Isabelle
  imports Main "HOL-Library.Word"
begin

section \<open>Python values\<close>

text \<open>
  The module \<^verbatim>\<open>civitai_models_manager/modules/create.py\<close> handles untyped JSON-like
  data: metadata records, the request payload, the responses of the remote client.
  A value is one of Python's \<^verbatim>\<open>None\<close>, \<^verbatim>\<open>bool\<close>, \<^verbatim>\<open>int\<close> (unbounded),
  \<^verbatim>\<open>float\<close> (an IEEE double, kept as its 64-bit pattern), \<^verbatim>\<open>str\<close>, \<^verbatim>\<open>list\<close>
  and \<^verbatim>\<open>dict\<close>. A dict is an association list in insertion order; keys are compared
  structurally (Python additionally identifies the keys \<^verbatim>\<open>1\<close>, \<^verbatim>\<open>True\<close> and
  \<^verbatim>\<open>1.0\<close>, which no literal key of the module depends on).
\<close>

datatype pyval =
    PNone
  | PBool bool
  | PInt int
  | PFloat "64 word"
  | PStr string
  | PList "pyval list"
  | PDict "(pyval \<times> pyval) list"

text \<open>
  The exceptions the module can meet, all of them instances of Python's
  \<^verbatim>\<open>Exception\<close> (the class every handler of the module names). \<open>OtherError\<close> stands
  for whatever else a collaborator raises (a network failure, an API error).
\<close>

datatype exn =
    KeyError
  | IndexError
  | TypeError
  | AttributeError
  | ValueError
  | OtherError string

text \<open>Truth value testing (\<^verbatim>\<open>if x:\<close>). A float is false when it is \<open>0.0\<close> or \<open>-0.0\<close>.\<close>

fun truthy :: "pyval \<Rightarrow> bool" where
  "truthy PNone = False"
| "truthy (PBool b) = b"
| "truthy (PInt n) = (n \<noteq> 0)"
| "truthy (PFloat f) = (f \<noteq> 0 \<and> f \<noteq> 0x8000000000000000)"
| "truthy (PStr s) = (s \<noteq> [])"
| "truthy (PList xs) = (xs \<noteq> [])"
| "truthy (PDict d) = (d \<noteq> [])"

text \<open>\<^verbatim>\<open>d[k]\<close> and \<^verbatim>\<open>d.get(k)\<close> on the entries of a dict.\<close>

fun dict_lookup :: "(pyval \<times> pyval) list \<Rightarrow> pyval \<Rightarrow> pyval option" where
  "dict_lookup [] k = None"
| "dict_lookup ((k', v) # d) k = (if k' = k then Some v else dict_lookup d k)"

text \<open>
  \<^verbatim>\<open>x["key"]\<close> with a string key: a dict is looked up (\<^verbatim>\<open>KeyError\<close> when the key
  is missing); a list or a str wants an integer index and every other value is not
  subscriptable, both a \<^verbatim>\<open>TypeError\<close>.
\<close>

fun getitem_str :: "pyval \<Rightarrow> string \<Rightarrow> exn + pyval" where
  "getitem_str (PDict d) k = (case dict_lookup d (PStr k) of None \<Rightarrow> Inl KeyError | Some v \<Rightarrow> Inr v)"
| "getitem_str _ k = Inl TypeError"

text \<open>
  \<^verbatim>\<open>x[0]\<close>: the first element of a list, the first character of a str
  (\<^verbatim>\<open>IndexError\<close> when empty), a lookup of the key \<open>0\<close> in a dict.
\<close>

fun getitem_0 :: "pyval \<Rightarrow> exn + pyval" where
  "getitem_0 (PList xs) = (case xs of [] \<Rightarrow> Inl IndexError | x # _ \<Rightarrow> Inr x)"
| "getitem_0 (PStr s) = (case s of [] \<Rightarrow> Inl IndexError | c # _ \<Rightarrow> Inr (PStr [c]))"
| "getitem_0 (PDict d) = (case dict_lookup d (PInt 0) of None \<Rightarrow> Inl KeyError | Some v \<Rightarrow> Inr v)"
| "getitem_0 _ = Inl TypeError"

text \<open>\<^verbatim>\<open>x.get("key")\<close>: only a dict has the method.\<close>

fun py_get :: "pyval \<Rightarrow> string \<Rightarrow> exn + pyval" where
  "py_get (PDict d) k = (case dict_lookup d (PStr k) of None \<Rightarrow> Inr PNone | Some v \<Rightarrow> Inr v)"
| "py_get _ k = Inl AttributeError"

text \<open>\<^verbatim>\<open>len(x)\<close>.\<close>

fun py_len :: "pyval \<Rightarrow> exn + nat" where
  "py_len (PList xs) = Inr (length xs)"
| "py_len (PStr s) = Inr (length s)"
| "py_len (PDict d) = Inr (length d)"
| "py_len _ = Inl TypeError"

text \<open>Iteration (\<^verbatim>\<open>for v in x\<close>): elements of a list, characters of a str, keys of a dict.\<close>

fun py_iter :: "pyval \<Rightarrow> exn + pyval list" where
  "py_iter (PList xs) = Inr xs"
| "py_iter (PStr s) = Inr (map (\<lambda>c. PStr [c]) s)"
| "py_iter (PDict d) = Inr (map fst d)"
| "py_iter _ = Inl TypeError"

text \<open>\<^verbatim>\<open>"key" in x\<close>: a key of a dict, an element of a list, a substring of a str.\<close>

fun substring :: "string \<Rightarrow> string \<Rightarrow> bool" where
  "substring k [] = (k = [])"
| "substring k (c # s) = (take (length k) (c # s) = k \<or> substring k s)"

fun contains_str :: "string \<Rightarrow> pyval \<Rightarrow> exn + bool" where
  "contains_str k (PDict d) = Inr (dict_lookup d (PStr k) \<noteq> None)"
| "contains_str k (PList xs) = Inr (PStr k \<in> set xs)"
| "contains_str k (PStr s) = Inr (substring k s)"
| "contains_str k _ = Inl TypeError"

text \<open>
  \<^verbatim>\<open>d[k] = v\<close> on the entries of a dict: a list or a dict is not hashable
  (\<^verbatim>\<open>TypeError\<close>); an existing key keeps its position, a new one goes last.
\<close>

fun dict_update :: "(pyval \<times> pyval) list \<Rightarrow> pyval \<Rightarrow> pyval \<Rightarrow> (pyval \<times> pyval) list" where
  "dict_update [] k v = [(k, v)]"
| "dict_update ((k', v') # d) k v = (if k' = k then (k, v) # d else (k', v') # dict_update d k v)"

fun hashable :: "pyval \<Rightarrow> bool" where
  "hashable (PList _) = False"
| "hashable (PDict _) = False"
| "hashable _ = True"

definition setitem :: "(pyval \<times> pyval) list \<Rightarrow> pyval \<Rightarrow> pyval \<Rightarrow> exn + (pyval \<times> pyval) list" where
  "setitem d k v = (if hashable k then Inr (dict_update d k v) else Inl TypeError)"

section \<open>The outside world and the trace of a run\<close>

text \<open>
  Everything the module does is an exchange with a collaborator: the metadata lookup of
  \<^verbatim>\<open>details.py\<close>, the remote client \<^verbatim>\<open>civitai\<close>, the prompts of \<^verbatim>\<open>questionary\<close>
  and the console. A \<open>call\<close> names an operation that takes arguments and answers.
\<close>

datatype call =
    GetModelDetails pyval pyval pyval
  | ProcessModelData pyval
  | ImageCreate pyval
  | JobsGet pyval
  | JobsQuery pyval pyval
  | JobsCancel pyval

text \<open>
  A fragment of an f-string: literal text, an interpolated value, or \<^verbatim>\<open>str(e)\<close> of a
  caught exception. The rendering of a value to text is not reproduced.
\<close>

datatype frag = Lit string | Val pyval | Exc exn

text \<open>
  An entry of a \<^verbatim>\<open>questionary.select\<close>: the text shown and the value returned when
  the entry is chosen.

  The trace of a run, in the order of execution. \<open>Called c r\<close> is a call of a
  collaborator with its outcome (\<open>Inl\<close> an exception it raised), \<open>AskedText\<close> and
  \<open>AskedSelect\<close> are prompts with the answer given, \<open>Feedback\<close> is
  \<^verbatim>\<open>feedback_message(text, severity)\<close>, \<open>ConsolePrint\<close> is \<^verbatim>\<open>console.print\<close>
  and \<open>PrintJson\<close> is \<^verbatim>\<open>print_json\<close>.
\<close>

datatype choice = Choice (title: "frag list") (cvalue: pyval)

datatype event =
    Called call "exn + pyval"
  | AskedText string string "string option"
  | AskedSelect string "choice list" "nat option"
  | Feedback "frag list" string
  | ConsolePrint string
  | PrintJson pyval

text \<open>
  The world answers each call and each prompt, knowing what has happened so far.
  \<open>ask_text tr message default\<close> is the text typed at a \<^verbatim>\<open>questionary.text\<close>
  prompt, \<open>None\<close> when the operator cancels (\<^verbatim>\<open>.ask()\<close> returns \<^verbatim>\<open>None\<close>).
  \<open>ask_select tr message choices\<close> is the position of the chosen entry of a
  \<^verbatim>\<open>questionary.select\<close>, \<open>None\<close> when cancelled. \<open>float_of_str\<close> is Python's
  \<^verbatim>\<open>float(str)\<close>, whose decimal-to-double conversion is taken as given: \<open>None\<close>
  is its \<^verbatim>\<open>ValueError\<close>.
\<close>

record world =
  answer :: "event list \<Rightarrow> call \<Rightarrow> exn + pyval"
  ask_text :: "event list \<Rightarrow> string \<Rightarrow> string \<Rightarrow> string option"
  ask_select :: "event list \<Rightarrow> string \<Rightarrow> choice list \<Rightarrow> nat option"
  float_of_str :: "string \<Rightarrow> 64 word option"

text \<open>
  Modelled from the spec: \<^verbatim>\<open>get_model_details\<close> lives in \<^verbatim>\<open>details.py\<close>, which is
  not part of the sources at hand. The specification counts the metadata fetch and the
  auxiliary-model fetch among the network calls of a run (one per logical step: metadata
  fetch, auxiliary-model fetch per entry, final submission, job query/cancel), and treats
  \<^verbatim>\<open>process_model_data\<close> as a normaliser of the fetched record.
\<close>

fun is_network_call :: "call \<Rightarrow> bool" where
  "is_network_call (ProcessModelData _) = False"
| "is_network_call _ = True"

text \<open>
  A computation reads the trace so far and returns a value or a raised exception,
  with the extended trace.
\<close>

type_synonym 'a prog = "event list \<Rightarrow> (exn + 'a) \<times> event list"

definition ret :: "'a \<Rightarrow> 'a prog" where
  "ret x = (\<lambda>tr. (Inr x, tr))"

definition raise :: "exn \<Rightarrow> 'a prog" where
  "raise e = (\<lambda>tr. (Inl e, tr))"

definition lift :: "exn + 'a \<Rightarrow> 'a prog" where
  "lift r = (\<lambda>tr. (r, tr))"

definition pbind :: "'a prog \<Rightarrow> ('a \<Rightarrow> 'b prog) \<Rightarrow> 'b prog" where
  "pbind m f = (\<lambda>tr. case m tr of (Inl e, tr') \<Rightarrow> (Inl e, tr') | (Inr x, tr') \<Rightarrow> f x tr')"

definition pthen :: "'a prog \<Rightarrow> 'b prog \<Rightarrow> 'b prog" where
  "pthen m n = pbind m (\<lambda>_. n)"

text \<open>\<^verbatim>\<open>try: m  except Exception as e: h(e)\<close>.\<close>

definition try_except :: "'a prog \<Rightarrow> (exn \<Rightarrow> 'a prog) \<Rightarrow> 'a prog" where
  "try_except m h = (\<lambda>tr. case m tr of (Inl e, tr') \<Rightarrow> h e tr' | (Inr x, tr') \<Rightarrow> (Inr x, tr'))"

definition emit :: "event \<Rightarrow> unit prog" where
  "emit e = (\<lambda>tr. (Inr (), tr @ [e]))"

definition feedback_message :: "frag list \<Rightarrow> string \<Rightarrow> unit prog" where
  "feedback_message msg severity = emit (Feedback msg severity)"

definition console_print :: "string \<Rightarrow> unit prog" where
  "console_print s = emit (ConsolePrint s)"

definition print_json :: "pyval \<Rightarrow> unit prog" where
  "print_json v = emit (PrintJson v)"

definition call :: "world \<Rightarrow> call \<Rightarrow> pyval prog" where
  "call w c = (\<lambda>tr. let r = answer w tr c in (r, tr @ [Called c r]))"

definition prompt_ask :: "world \<Rightarrow> string \<Rightarrow> string \<Rightarrow> string option prog" where
  "prompt_ask w message dflt = (\<lambda>tr. let a = ask_text w tr message dflt in (Inr a, tr @ [AskedText message dflt a]))"

text \<open>
  \<^verbatim>\<open>select(message, choices).ask()\<close>: the value of the chosen entry, \<^verbatim>\<open>None\<close> when
  nothing is chosen (a position outside the list stands for no choice).
\<close>

definition chosen :: "choice list \<Rightarrow> nat option \<Rightarrow> pyval" where
  "chosen choices a =
     (case a of None \<Rightarrow> PNone
      | Some i \<Rightarrow> if i < length choices then cvalue (choices ! i) else PNone)"

definition select_ask :: "world \<Rightarrow> string \<Rightarrow> choice list \<Rightarrow> pyval prog" where
  "select_ask w message choices =
     (\<lambda>tr. let a = ask_select w tr message choices
           in (Inr (chosen choices a), tr @ [AskedSelect message choices a]))"

text \<open>The run of a computation from the empty trace.\<close>

definition result_of :: "'a prog \<Rightarrow> exn + 'a" where
  "result_of m = fst (m [])"

definition trace_of :: "'a prog \<Rightarrow> event list" where
  "trace_of m = snd (m [])"

section \<open>Job Reporter\<close>

text \<open>
  \<^verbatim>\<open>def fetch_job_details(job_id: str, user_id: str, detailed: bool) -> None\<close>
  (lines 139-160). The function has no \<^verbatim>\<open>return\<close> statement: its value is
  \<^verbatim>\<open>None\<close>.
\<close>

definition fetch_job_details :: "world \<Rightarrow> pyval \<Rightarrow> pyval \<Rightarrow> pyval \<Rightarrow> pyval prog" where
  "fetch_job_details w job_id user_id detailed =
     pthen
       (try_except
          (if truthy job_id then
             pbind (call w (JobsGet job_id)) (\<lambda>job_details.
               if truthy job_details then
                 pthen (console_print ''Job details:'') (print_json job_details)
               else feedback_message [Lit ''No job details found.''] ''warning'')
           else if truthy user_id then
             (let query = PDict [(PStr ''properties'', PDict [(PStr ''userId'', user_id)])] in
              pbind (call w (JobsQuery detailed query)) (\<lambda>jobs.
                if truthy jobs then
                  pthen (console_print ''Jobs:'') (print_json jobs)
                else feedback_message [Lit ''No jobs found for the given user ID.''] ''warning''))
           else feedback_message [Lit ''Please provide either a job ID or a user ID.''] ''error'')
          (\<lambda>e. feedback_message [Lit ''Error fetching job details: '', Exc e] ''error''))
       (ret PNone)"

text \<open>\<^verbatim>\<open>def cancel_job(job_id: str)\<close> (lines 163-173).\<close>

definition cancel_job :: "world \<Rightarrow> pyval \<Rightarrow> pyval prog" where
  "cancel_job w job_id =
     pthen
       (try_except
          (pbind (call w (JobsCancel job_id)) (\<lambda>response.
             if truthy response then
               pthen (console_print ''Job cancellation response:'') (print_json response)
             else feedback_message [Lit ''Failed to cancel the job.''] ''error''))
          (\<lambda>e. feedback_message [Lit ''Error cancelling job: '', Exc e] ''error''))
       (ret PNone)"

section \<open>Reading numbers\<close>

text \<open>
  Python's \<^verbatim>\<open>int(s)\<close> on ASCII text, in base 10: blanks around the number are skipped,
  one sign may come first, then decimal digits, with single underscores allowed between
  digits. Everything else is a \<^verbatim>\<open>ValueError\<close> (\<open>None\<close>). CPython's configurable cap
  on the number of digits only removes accepted texts and is left out.
\<close>

definition is_space :: "char \<Rightarrow> bool" where
  "is_space c = (c \<in> set [CHR 0x09, CHR 0x0A, CHR 0x0B, CHR 0x0C, CHR 0x0D, CHR '' ''])"

definition is_digit :: "char \<Rightarrow> bool" where
  "is_digit c = (c \<in> set ''0123456789'')"

definition digit_val :: "char \<Rightarrow> int" where
  "digit_val c = of_char c - 48"

fun scan_digits :: "bool \<Rightarrow> int \<Rightarrow> string \<Rightarrow> int option" where
  "scan_digits prev_underscore acc [] = (if prev_underscore then None else Some acc)"
| "scan_digits prev_underscore acc (c # cs) =
     (if c = CHR ''_'' then (if prev_underscore then None else scan_digits True acc cs)
      else if is_digit c then scan_digits False (10 * acc + digit_val c) cs
      else None)"

definition py_strip :: "string \<Rightarrow> string" where
  "py_strip s = rev (dropWhile is_space (rev (dropWhile is_space s)))"

definition py_int :: "string \<Rightarrow> int option" where
  "py_int s =
     (case py_strip s of
        [] \<Rightarrow> None
      | c # r \<Rightarrow>
          (let negative = (c = CHR ''-'');
               body = (if c = CHR ''-'' \<or> c = CHR ''+'' then r else c # r)
           in if body = [] \<or> hd body = CHR ''_'' then None
              else map_option (\<lambda>n. if negative then - n else n) (scan_digits False 0 body)))"

text \<open>\<^verbatim>\<open>s.split(sep)\<close> for a separator of one character.\<close>

fun split_on :: "char \<Rightarrow> string \<Rightarrow> string list" where
  "split_on sep [] = [[]]"
| "split_on sep (c # cs) =
     (let r = split_on sep cs in if c = sep then [] # r else (c # hd r) # tl r)"

text \<open>
  \<^verbatim>\<open>width, height = map(int, width_height.split("x"))\<close> (line 225). \<^verbatim>\<open>map\<close> is lazy:
  unpacking reads the first piece, then the second, then asks for a third. A piece that
  \<^verbatim>\<open>int\<close> refuses, a missing second piece and an existing third one are all a
  \<^verbatim>\<open>ValueError\<close>.
\<close>

definition parse_width_height :: "string \<Rightarrow> exn + (int \<times> int)" where
  "parse_width_height width_height =
     (case split_on CHR ''x'' width_height of
        [] \<Rightarrow> Inl ValueError
      | a # rest \<Rightarrow>
          (case py_int a of
             None \<Rightarrow> Inl ValueError
           | Some width \<Rightarrow>
               (case rest of
                  [] \<Rightarrow> Inl ValueError
                | b # rest' \<Rightarrow>
                    (case py_int b of
                       None \<Rightarrow> Inl ValueError
                     | Some height \<Rightarrow> if rest' = [] then Inr (width, height) else Inl ValueError))))"

text \<open>
  Line 225 on the answer of the prompt: \<^verbatim>\<open>None\<close> (a cancelled prompt) has no method
  \<^verbatim>\<open>split\<close>, an \<^verbatim>\<open>AttributeError\<close>.
\<close>

definition width_height_of_answer :: "string option \<Rightarrow> exn + (int \<times> int)" where
  "width_height_of_answer a =
     (case a of None \<Rightarrow> Inl AttributeError | Some s \<Rightarrow> parse_width_height s)"

text \<open>
  \<^verbatim>\<open>int(steps)\<close> and \<^verbatim>\<open>float(cfg_scale)\<close> on the answer of a text prompt: \<^verbatim>\<open>None\<close>
  (a cancelled prompt) is a \<^verbatim>\<open>TypeError\<close>, text that does not read a \<^verbatim>\<open>ValueError\<close>.
\<close>

definition int_of_answer :: "string option \<Rightarrow> exn + int" where
  "int_of_answer a =
     (case a of None \<Rightarrow> Inl TypeError
      | Some s \<Rightarrow> (case py_int s of None \<Rightarrow> Inl ValueError | Some n \<Rightarrow> Inr n))"

definition float_of_answer :: "world \<Rightarrow> string option \<Rightarrow> exn + 64 word" where
  "float_of_answer w a =
     (case a of None \<Rightarrow> Inl TypeError
      | Some s \<Rightarrow> (case float_of_str w s of None \<Rightarrow> Inl ValueError | Some f \<Rightarrow> Inr f))"

text \<open>The value of a text prompt as Python sees it.\<close>

definition text_value :: "string option \<Rightarrow> pyval" where
  "text_value a = (case a of None \<Rightarrow> PNone | Some s \<Rightarrow> PStr s)"

text \<open>\<^verbatim>\<open>try: m  except ValueError: h\<close>: every other exception passes through.\<close>

definition try_except_ValueError :: "'a prog \<Rightarrow> 'a prog \<Rightarrow> 'a prog" where
  "try_except_ValueError m h =
     (\<lambda>tr. case m tr of
        (Inl e, tr') \<Rightarrow> if e = ValueError then h tr' else (Inl e, tr')
      | (Inr x, tr') \<Rightarrow> (Inr x, tr'))"

section \<open>LoRA Resolver\<close>

text \<open>
  \<^verbatim>\<open>def get_lora_details(CIVITAI_MODELS, CIVITAI_VERSIONS, lora_id)\<close> (lines 61-75).
  The condition \<^verbatim>\<open>lora_data and lora_data.get("type") == "LORA"\<close> short-circuits on a
  false \<^verbatim>\<open>lora_data\<close>.
\<close>

definition get_lora_details :: "world \<Rightarrow> pyval \<Rightarrow> pyval \<Rightarrow> pyval \<Rightarrow> pyval prog" where
  "get_lora_details w CIVITAI_MODELS CIVITAI_VERSIONS lora_id =
     try_except
       (pbind (call w (GetModelDetails CIVITAI_MODELS CIVITAI_VERSIONS lora_id)) (\<lambda>lora_data.
        pbind (if truthy lora_data
               then pbind (lift (py_get lora_data ''type'')) (\<lambda>t. ret (t = PStr ''LORA''))
               else ret False) (\<lambda>is_lora.
          if is_lora then ret lora_data
          else pthen (feedback_message [Lit ''Model with ID '', Val lora_id, Lit '' is not a LoRA.''] ''error'')
                     (ret PNone))))
       (\<lambda>e. pthen (feedback_message [Lit ''Error fetching LoRA details: '', Exc e] ''error'')
                  (ret PNone))"

section \<open>Request Submitter\<close>

text \<open>The literal \<^verbatim>\<open>1.0\<close> as a double.\<close>

definition float_one :: "64 word" where
  "float_one = 0x3FF0000000000000"

definition lora_entry :: pyval where
  "lora_entry = PDict [(PStr ''type'', PStr ''Lora''), (PStr ''strength'', PFloat float_one)]"

text \<open>
  The body of the loop \<^verbatim>\<open>for lora_id in lora_list\<close> (lines 113-125), on the entries of
  \<^verbatim>\<open>input_data["additionalNetworks"]\<close>. The call of line 113 passes
  \<^verbatim>\<open>(lora_id, CIVITAI_MODELS, CIVITAI_VERSIONS)\<close> by position.
\<close>

definition lora_step :: "world \<Rightarrow> pyval \<Rightarrow> pyval \<Rightarrow> (pyval \<times> pyval) list \<Rightarrow> pyval \<Rightarrow> (pyval \<times> pyval) list prog" where
  "lora_step w CIVITAI_MODELS CIVITAI_VERSIONS networks lora_id =
     pbind (get_lora_details w lora_id CIVITAI_MODELS CIVITAI_VERSIONS) (\<lambda>lora_data.
     pbind (if truthy lora_data
            then pbind (lift (contains_str ''versions'' lora_data)) (\<lambda>has.
                   if has then pbind (lift (getitem_str lora_data ''versions'')) (\<lambda>vs. ret (truthy vs))
                   else ret False)
            else ret False) (\<lambda>usable.
       if usable then
         pbind (lift (getitem_str lora_data ''versions'')) (\<lambda>vs.
         pbind (lift (getitem_0 vs)) (\<lambda>v0.
         pbind (lift (py_get v0 ''air'')) (\<lambda>lora_air.
           if truthy lora_air then
             pbind (lift (setitem networks lora_air lora_entry)) (\<lambda>networks'.
             pthen (feedback_message [Lit ''Added LoRA: '', Val lora_air] ''info'')
                   (ret networks'))
           else
             pthen (feedback_message [Lit ''LoRA AIR not found for ID: '', Val lora_id] ''warning'')
                   (ret networks))))
       else
         pthen (feedback_message [Lit ''Failed to get details for LoRA ID: '', Val lora_id] ''warning'')
               (ret networks)))"

fun lora_loop :: "world \<Rightarrow> pyval \<Rightarrow> pyval \<Rightarrow> (pyval \<times> pyval) list \<Rightarrow> pyval list \<Rightarrow> (pyval \<times> pyval) list prog" where
  "lora_loop w CIVITAI_MODELS CIVITAI_VERSIONS networks [] = ret networks"
| "lora_loop w CIVITAI_MODELS CIVITAI_VERSIONS networks (lora_id # rest) =
     pbind (lora_step w CIVITAI_MODELS CIVITAI_VERSIONS networks lora_id) (\<lambda>networks'.
       lora_loop w CIVITAI_MODELS CIVITAI_VERSIONS networks' rest)"

text \<open>The dict literal of lines 94-107.\<close>

definition request_params :: "pyval \<Rightarrow> pyval \<Rightarrow> pyval \<Rightarrow> pyval \<Rightarrow> pyval \<Rightarrow> pyval \<Rightarrow> pyval \<Rightarrow> pyval" where
  "request_params pos_prompt neg_prompt width height scheduler steps cfg_scale =
     PDict [(PStr ''prompt'', pos_prompt),
            (PStr ''negativePrompt'', neg_prompt),
            (PStr ''scheduler'', scheduler),
            (PStr ''steps'', steps),
            (PStr ''cfgScale'', cfg_scale),
            (PStr ''width'', width),
            (PStr ''height'', height),
            (PStr ''seed'', PInt (- 1)),
            (PStr ''clipSkip'', PInt 1)]"

text \<open>
  \<^verbatim>\<open>def generate_image(CIVITAI_MODELS, CIVITAI_VERSIONS, air, pos_prompt, neg_prompt,
  width, height, scheduler, steps, cfg_scale, lora_list)\<close> (lines 78-136). The key
  \<^verbatim>\<open>additionalNetworks\<close> is set to an empty dict before the loop and filled in place,
  so it is the third key of \<^verbatim>\<open>input_data\<close> whenever \<^verbatim>\<open>lora_list\<close> is not empty.
\<close>

definition generate_image ::
  "world \<Rightarrow> pyval \<Rightarrow> pyval \<Rightarrow> pyval \<Rightarrow> pyval \<Rightarrow> pyval \<Rightarrow> pyval \<Rightarrow> pyval \<Rightarrow> pyval \<Rightarrow> pyval \<Rightarrow> pyval \<Rightarrow> pyval list \<Rightarrow> pyval prog" where
  "generate_image w CIVITAI_MODELS CIVITAI_VERSIONS air pos_prompt neg_prompt width height scheduler steps cfg_scale lora_list =
     pthen (feedback_message [Lit ''Generating the image...''] ''info'')
       (try_except
          (let input_data = [(PStr ''model'', air),
                             (PStr ''params'', request_params pos_prompt neg_prompt width height scheduler steps cfg_scale)]
           in
           pbind (if lora_list \<noteq> [] then
                    pthen (feedback_message [Lit ''Processing '', Val (PInt (int (length lora_list))), Lit '' LoRA models...''] ''info'')
                      (pbind (lora_loop w CIVITAI_MODELS CIVITAI_VERSIONS [] lora_list) (\<lambda>networks.
                         ret (input_data @ [(PStr ''additionalNetworks'', PDict networks)])))
                  else ret input_data) (\<lambda>input_data.
           pthen (feedback_message [Lit ''Submitting image generation request...''] ''info'')
          (pthen (console_print ''Input data:'')
          (pthen (print_json (PDict input_data))
          (pbind (call w (ImageCreate (PDict input_data))) (\<lambda>response.
           pthen (feedback_message [Lit ''Image generation request submitted successfully.''] ''success'')
                 (ret response)))))))
          (\<lambda>e. pthen (feedback_message [Lit ''Error generating image: '', Exc e] ''error'')
                     (ret PNone)))"

section \<open>Interactive Collector\<close>

definition SCHEDULERS :: "string list" where
  "SCHEDULERS =
     [''EulerA'', ''Euler'', ''LMS'', ''Heun'', ''DPM2'', ''DPM2A'', ''DPM2SA'', ''DPM2M'',
      ''DPMSDE'', ''DPMFast'', ''DPMAdaptive'', ''LMSKarras'', ''DPM2Karras'', ''DPM2AKarras'',
      ''DPM2SAKarras'', ''DPM2MKarras'', ''DPMSDEKarras'', ''DDIM'', ''PLMS'', ''UniPC'',
      ''Undefined'', ''LCM'', ''DDPM'', ''DEIS'']"

text \<open>
  The comprehension of lines 193-198: one entry
  \<^verbatim>\<open>{'name': f"{v['id']} - {v['name']}", 'value': v}\<close> per version, left to right.
\<close>

fun version_choices :: "pyval list \<Rightarrow> exn + choice list" where
  "version_choices [] = Inr []"
| "version_choices (v # vs) =
     (case getitem_str v ''id'' of
        Inl e \<Rightarrow> Inl e
      | Inr i \<Rightarrow>
          (case getitem_str v ''name'' of
             Inl e \<Rightarrow> Inl e
           | Inr n \<Rightarrow>
               (case version_choices vs of
                  Inl e \<Rightarrow> Inl e
                | Inr cs \<Rightarrow> Inr (Choice [Val i, Lit '' - '', Val n] v # cs))))"

text \<open>
  Lines 183-212 of \<^verbatim>\<open>create_image_cli\<close>: the model is fetched and the version chosen.
  The value is the artifact reference \<^verbatim>\<open>arn\<close>, or \<open>None\<close> when the function returns.
\<close>

definition select_version :: "world \<Rightarrow> pyval \<Rightarrow> pyval \<Rightarrow> pyval \<Rightarrow> pyval option prog" where
  "select_version w CIVITAI_MODELS CIVITAI_VERSIONS requested_model =
     pbind (call w (GetModelDetails CIVITAI_MODELS CIVITAI_VERSIONS requested_model)) (\<lambda>raw_model.
     pbind (call w (ProcessModelData raw_model)) (\<lambda>processed_model.
       if \<not> truthy processed_model then
         pthen (feedback_message [Lit ''No model found with ID: '', Val requested_model] ''error'')
               (ret None)
       else
         pbind (lift (getitem_str processed_model ''versions'')) (\<lambda>processed_versions.
         let selected_model = (if truthy processed_versions then processed_model else raw_model) in
         pbind (lift (getitem_str selected_model ''versions'')) (\<lambda>versions.
         pbind (lift (py_len versions)) (\<lambda>n.
           if n > 1 then
             pbind (lift (py_iter versions)) (\<lambda>vs.
             pbind (lift (version_choices vs)) (\<lambda>choices.
             pbind (select_ask w ''Select a version'' choices) (\<lambda>selected_version.
               if truthy selected_version then
                 pbind (lift (getitem_str selected_version ''air'')) (\<lambda>arn. ret (Some arn))
               else
                 pthen (feedback_message [Lit ''No version selected. Aborting.''] ''error'')
                       (ret None))))
           else
             pbind (lift (getitem_0 versions)) (\<lambda>v0.
             pbind (lift (getitem_str v0 ''air'')) (\<lambda>arn. ret (Some arn))))))))"

text \<open>
  Lines 216-249: the generation parameters are asked for. The value is \<open>None\<close> when the
  function returns, else the arguments of \<^verbatim>\<open>generate_image\<close> in its order:
  positive prompt, negative prompt, width, height, scheduler, steps, CFG scale.
\<close>

type_synonym parameters = "pyval \<times> pyval \<times> pyval \<times> pyval \<times> pyval \<times> pyval \<times> pyval"

definition invalid_width_height :: "frag list" where
  "invalid_width_height =
     [Lit (''Invalid width x height format. Please use format like '' @ [CHR 0x27] @ ''1024x1024''
           @ [CHR 0x27] @ ''.'')]"

definition collect_parameters :: "world \<Rightarrow> parameters option prog" where
  "collect_parameters w =
     pbind (prompt_ask w ''Enter positive prompt:'' []) (\<lambda>pos_prompt.
       if \<not> truthy (text_value pos_prompt) then
         pthen (feedback_message [Lit ''Positive prompt is required.''] ''error'') (ret None)
       else
         pbind (prompt_ask w ''Enter negative prompt (optional):'' []) (\<lambda>neg_prompt.
         pbind (prompt_ask w ''Enter width x height (e.g., 1024x1024):'' ''1024x1024'') (\<lambda>width_height.
         pbind (try_except_ValueError
                  (pbind (lift (width_height_of_answer width_height)) (\<lambda>wh. ret (Some wh)))
                  (pthen (feedback_message invalid_width_height ''error'') (ret None))) (\<lambda>wh.
           case wh of
             None \<Rightarrow> ret None
           | Some (width, height) \<Rightarrow>
               pbind (select_ask w ''Select scheduler:'' (map (\<lambda>s. Choice [Lit s] (PStr s)) SCHEDULERS)) (\<lambda>scheduler.
               pbind (prompt_ask w ''Enter number of steps:'' []) (\<lambda>steps.
               pbind (try_except_ValueError
                        (pbind (lift (int_of_answer steps)) (\<lambda>n. ret (Some n)))
                        (pthen (feedback_message [Lit ''Invalid number of steps. Please enter an integer.''] ''error'')
                               (ret None))) (\<lambda>steps.
                 case steps of
                   None \<Rightarrow> ret None
                 | Some steps \<Rightarrow>
                     pbind (prompt_ask w ''Enter CFG scale:'' []) (\<lambda>cfg_scale.
                     pbind (try_except_ValueError
                              (pbind (lift (float_of_answer w cfg_scale)) (\<lambda>f. ret (Some f)))
                              (pthen (feedback_message [Lit ''Invalid CFG scale. Please enter a number.''] ''error'')
                                     (ret None))) (\<lambda>cfg_scale.
                       case cfg_scale of
                         None \<Rightarrow> ret None
                       | Some cfg_scale \<Rightarrow>
                           ret (Some (text_value pos_prompt, text_value neg_prompt, PInt width, PInt height,
                                      scheduler, PInt steps, PFloat cfg_scale)))))))))))"

text \<open>
  A call \<^verbatim>\<open>fetch_job_details(*args)\<close> with positional arguments: the function declares
  three parameters without defaults, so any other number of arguments is a
  \<^verbatim>\<open>TypeError\<close> raised before the body runs.
\<close>

definition call_fetch_job_details :: "world \<Rightarrow> pyval list \<Rightarrow> pyval prog" where
  "call_fetch_job_details w args =
     (case args of
        [job_id, user_id, detailed] \<Rightarrow> fetch_job_details w job_id user_id detailed
      | _ \<Rightarrow> raise TypeError)"

text \<open>Lines 266-279: the response of the submission is reported.\<close>

definition report_response :: "world \<Rightarrow> pyval \<Rightarrow> unit prog" where
  "report_response w response =
     (if truthy response then
        pthen (console_print ''Image generation response:'')
       (pthen (print_json response)
       (pbind (lift (contains_str ''jobId'' response)) (\<lambda>has_job_id.
          if has_job_id then
            pbind (lift (getitem_str response ''jobId'')) (\<lambda>job_id.
            pbind (call_fetch_job_details w [job_id]) (\<lambda>job_details.
              if truthy job_details then
                pthen (console_print ''Job details:'') (print_json job_details)
              else ret ()))
          else feedback_message [Lit ''No job ID found in the response.''] ''warning'')))
      else feedback_message [Lit ''Image generation failed.''] ''error'')"

text \<open>
  \<^verbatim>\<open>def create_image_cli(CIVITAI_MODELS, CIVITAI_VERSIONS, requested_model, lora_list)\<close>
  (lines 176-282).
\<close>

definition create_image_cli :: "world \<Rightarrow> pyval \<Rightarrow> pyval \<Rightarrow> pyval \<Rightarrow> pyval list \<Rightarrow> unit prog" where
  "create_image_cli w CIVITAI_MODELS CIVITAI_VERSIONS requested_model lora_list =
     try_except
       (pbind (select_version w CIVITAI_MODELS CIVITAI_VERSIONS requested_model) (\<lambda>arn.
          case arn of
            None \<Rightarrow> ret ()
          | Some arn \<Rightarrow>
              pbind (collect_parameters w) (\<lambda>ps.
                case ps of
                  None \<Rightarrow> ret ()
                | Some (pos_prompt, neg_prompt, width, height, scheduler, steps, cfg_scale) \<Rightarrow>
                    pbind (generate_image w CIVITAI_MODELS CIVITAI_VERSIONS arn pos_prompt neg_prompt
                             width height scheduler steps cfg_scale lora_list) (\<lambda>response.
                      report_response w response))))
       (\<lambda>e. feedback_message [Lit ''An unexpected error occurred: '', Exc e] ''error'')"

section \<open>Reading a trace\<close>

text \<open>The calls of collaborators in a trace, in order, with and without their outcomes.\<close>

fun exchanges :: "event list \<Rightarrow> (call \<times> (exn + pyval)) list" where
  "exchanges [] = []"
| "exchanges (Called c r # es) = (c, r) # exchanges es"
| "exchanges (_ # es) = exchanges es"

definition calls_of :: "event list \<Rightarrow> call list" where
  "calls_of es = map fst (exchanges es)"

text \<open>The events each part of the module can produce.\<close>

fun is_feedback :: "event \<Rightarrow> bool" where
  "is_feedback (Feedback msg sev) = True"
| "is_feedback _ = False"

fun resolver_event :: "event \<Rightarrow> bool" where
  "resolver_event (Called (GetModelDetails a b c) r) = True"
| "resolver_event (Feedback msg sev) = True"
| "resolver_event _ = False"

fun submitter_event :: "event \<Rightarrow> bool" where
  "submitter_event (Called (GetModelDetails a b c) r) = True"
| "submitter_event (Called (ImageCreate req) r) = True"
| "submitter_event (Feedback msg sev) = True"
| "submitter_event (ConsolePrint s) = (s = ''Input data:'')"
| "submitter_event (PrintJson v) = True"
| "submitter_event _ = False"

fun selector_event :: "event \<Rightarrow> bool" where
  "selector_event (Called (ProcessModelData raw) r) = True"
| "selector_event (AskedSelect m cs a) = (m = ''Select a version'')"
| "selector_event (Feedback msg sev) = (sev = ''error'')"
| "selector_event _ = False"

fun collector_event :: "event \<Rightarrow> bool" where
  "collector_event (AskedText m d a) = True"
| "collector_event (AskedSelect m cs a) = (m = ''Select scheduler:'')"
| "collector_event (Feedback msg sev) = (sev = ''error'')"
| "collector_event _ = False"

fun reporter_event :: "event \<Rightarrow> bool" where
  "reporter_event (ConsolePrint s) = (s = ''Image generation response:'')"
| "reporter_event (PrintJson v) = True"
| "reporter_event (Feedback msg sev) = (sev = ''warning'' \<or> sev = ''error'')"
| "reporter_event _ = False"

section \<open>Specifications of computations\<close>

text \<open>
  \<open>sat m Q\<close>: from every trace, \<open>m\<close> leaves the trace it found in place, and its outcome
  and the events it adds satisfy \<open>Q\<close>.
\<close>

definition sat :: "'a prog \<Rightarrow> ((exn + 'a) \<Rightarrow> event list \<Rightarrow> bool) \<Rightarrow> bool" where
  "sat m Q \<longleftrightarrow> (\<forall>tr. \<exists>r es. m tr = (r, tr @ es) \<and> Q r es)"

text \<open>
  The key \<open>k\<close> is the \<^verbatim>\<open>air\<close> of the first version of a record of type \<^verbatim>\<open>LORA\<close>
  that a lookup for an entry of \<open>ls\<close> returned.
\<close>

definition from_lookup :: "pyval \<Rightarrow> pyval \<Rightarrow> pyval list \<Rightarrow> event list \<Rightarrow> pyval \<Rightarrow> bool" where
  "from_lookup M V ls es k \<longleftrightarrow>
     (\<exists>l rec vs v0. l \<in> set ls \<and> Called (GetModelDetails l M V) (Inr rec) \<in> set es
        \<and> py_get rec ''type'' = Inr (PStr ''LORA'')
        \<and> getitem_str rec ''versions'' = Inr vs \<and> getitem_0 vs = Inr v0 \<and> py_get v0 ''air'' = Inr k)"

text \<open>The request \<^verbatim>\<open>generate_image\<close> submits, given the entries of its third key.\<close>

definition request :: "pyval \<Rightarrow> pyval \<Rightarrow> pyval \<Rightarrow> pyval \<Rightarrow> pyval \<Rightarrow> pyval \<Rightarrow> pyval \<Rightarrow> pyval \<Rightarrow> pyval list \<Rightarrow> (pyval \<times> pyval) list \<Rightarrow> pyval" where
  "request air pos neg wd ht sched steps cfg ls nets =
     PDict ([(PStr ''model'', air), (PStr ''params'', request_params pos neg wd ht sched steps cfg)]
            @ (if ls = [] then [] else [(PStr ''additionalNetworks'', PDict nets)]))"

definition generate_image_post ::
  "pyval \<Rightarrow> pyval \<Rightarrow> pyval \<Rightarrow> pyval \<Rightarrow> pyval \<Rightarrow> pyval \<Rightarrow> pyval \<Rightarrow> pyval \<Rightarrow> pyval \<Rightarrow> pyval \<Rightarrow> pyval list
     \<Rightarrow> (exn + pyval) \<Rightarrow> event list \<Rightarrow> bool" where
  "generate_image_post M V air pos neg wd ht sched steps cfg ls r0 es \<longleftrightarrow>
     (\<exists>r es' n. r0 = Inr r \<and> es = Feedback [Lit ''Generating the image...''] ''info'' # es'
        \<and> list_all submitter_event es' \<and> n \<le> length ls
        \<and> ((calls_of es' = map (\<lambda>l. GetModelDetails l M V) (take n ls) \<and> r = PNone)
           \<or> (\<exists>nets a.
                 calls_of es' = map (\<lambda>l. GetModelDetails l M V) ls
                                  @ [ImageCreate (request air pos neg wd ht sched steps cfg ls nets)]
               \<and> last (exchanges es') = (ImageCreate (request air pos neg wd ht sched steps cfg ls nets), a)
               \<and> (\<forall>k v. (k, v) \<in> set nets \<longrightarrow> v = lora_entry \<and> from_lookup M V ls es' k)
               \<and> r = (case a of Inl e \<Rightarrow> PNone | Inr x \<Rightarrow> x))))"

definition select_version_post :: "pyval \<Rightarrow> pyval \<Rightarrow> pyval \<Rightarrow> (exn + pyval option) \<Rightarrow> event list \<Rightarrow> bool" where
  "select_version_post M V rm r es \<longleftrightarrow>
     (\<exists>a es'. es = Called (GetModelDetails M V rm) a # es' \<and> list_all selector_event es'
        \<and> (\<forall>raw d v. Called (ProcessModelData raw) (Inr (PDict d)) \<in> set es'
              \<and> dict_lookup d (PStr ''versions'') = Some (PList [v])
            \<longrightarrow> list_all (\<lambda>e. \<forall>m cs a. e \<noteq> AskedSelect m cs a) es'
                \<and> (\<forall>x. r = Inr x \<longrightarrow> (\<exists>arn. x = Some arn \<and> getitem_str v ''air'' = Inr arn))))"

definition collect_parameters_post :: "world \<Rightarrow> (exn + parameters option) \<Rightarrow> event list \<Rightarrow> bool" where
  "collect_parameters_post w r es \<longleftrightarrow>
     list_all collector_event es
   \<and> (\<forall>a. AskedText ''Enter positive prompt:'' [] a \<in> set es \<and> (a = None \<or> a = Some [])
         \<longrightarrow> r = Inr None \<and> last es = Feedback [Lit ''Positive prompt is required.''] ''error'')
   \<and> (\<forall>s. AskedText ''Enter width x height (e.g., 1024x1024):'' ''1024x1024'' (Some s) \<in> set es
           \<and> (\<forall>wd ht. parse_width_height s \<noteq> Inr (wd, ht))
         \<longrightarrow> r = Inr None \<and> last es = Feedback invalid_width_height ''error'')
   \<and> (\<forall>ps. r = Inr (Some ps) \<longrightarrow>
         (\<exists>pos neg wh wd ht sched stp n cfg f.
             ps = (PStr pos, text_value neg, PInt wd, PInt ht, sched, PInt n, PFloat f)
           \<and> pos \<noteq> []
           \<and> AskedText ''Enter positive prompt:'' [] (Some pos) \<in> set es
           \<and> AskedText ''Enter width x height (e.g., 1024x1024):'' ''1024x1024'' (Some wh) \<in> set es
           \<and> parse_width_height wh = Inr (wd, ht)
           \<and> AskedText ''Enter number of steps:'' [] (Some stp) \<in> set es
           \<and> py_int stp = Some n
           \<and> AskedText ''Enter CFG scale:'' [] (Some cfg) \<in> set es
           \<and> float_of_str w cfg = Some f))"

definition report_response_post :: "pyval \<Rightarrow> (exn + unit) \<Rightarrow> event list \<Rightarrow> bool" where
  "report_response_post response r es \<longleftrightarrow>
     list_all reporter_event es
   \<and> (\<forall>d. response = PDict d \<and> dict_lookup d (PStr ''jobId'') \<noteq> None
         \<longrightarrow> r = Inl TypeError \<and> es = [ConsolePrint ''Image generation response:'', PrintJson response])"

text \<open>The message of the handler of line 282.\<close>

definition unexpected :: "exn \<Rightarrow> event" where
  "unexpected e = Feedback [Lit ''An unexpected error occurred: '', Exc e] ''error''"

text \<open>
  The runs of the body of \<^verbatim>\<open>create_image_cli\<close> (lines 183-279): the version
  selection, then the collection of the parameters, then the submission and its report,
  each part reached only when the one before it went through.
\<close>

inductive body_post ::
  "world \<Rightarrow> pyval \<Rightarrow> pyval \<Rightarrow> pyval \<Rightarrow> pyval list \<Rightarrow> (exn + unit) \<Rightarrow> event list \<Rightarrow> bool"
  for w M V rm ll where
    select_raised:
      "select_version_post M V rm (Inl e) es1 \<Longrightarrow> body_post w M V rm ll (Inl e) es1"
  | select_returned:
      "select_version_post M V rm (Inr None) es1 \<Longrightarrow> body_post w M V rm ll (Inr ()) es1"
  | collect_raised:
      "select_version_post M V rm (Inr (Some arn)) es1
       \<Longrightarrow> collect_parameters_post w (Inl e) es2
       \<Longrightarrow> body_post w M V rm ll (Inl e) (es1 @ es2)"
  | collect_returned:
      "select_version_post M V rm (Inr (Some arn)) es1
       \<Longrightarrow> collect_parameters_post w (Inr None) es2
       \<Longrightarrow> body_post w M V rm ll (Inr ()) (es1 @ es2)"
  | generated:
      "select_version_post M V rm (Inr (Some arn)) es1
       \<Longrightarrow> collect_parameters_post w (Inr (Some (pos, neg, wd, ht, sched, steps, cfg))) es2
       \<Longrightarrow> generate_image_post M V arn pos neg wd ht sched steps cfg ll (Inr resp) es3
       \<Longrightarrow> report_response_post resp r es4
       \<Longrightarrow> body_post w M V rm ll r (es1 @ es2 @ es3 @ es4)"

text \<open>The whole function: the handler of line 281 turns an exception of the body into a message.\<close>

definition create_image_cli_post ::
  "world \<Rightarrow> pyval \<Rightarrow> pyval \<Rightarrow> pyval \<Rightarrow> pyval list \<Rightarrow> (exn + unit) \<Rightarrow> event list \<Rightarrow> bool" where
  "create_image_cli_post w M V rm ll r T \<longleftrightarrow>
     r = Inr () \<and>
     (\<exists>rb Tb. body_post w M V rm ll rb Tb
        \<and> T = Tb @ (case rb of Inl e \<Rightarrow> [unexpected e] | Inr u \<Rightarrow> []))"

section \<open>Words of the claims\<close>

text \<open>The events a computation adds to the trace it starts from.\<close>

definition events_of :: "'a prog \<Rightarrow> event list \<Rightarrow> event list" where
  "events_of m tr = drop (length tr) (snd (m tr))"

text \<open>
  \<^verbatim>\<open>generate_image\<close> has been entered: its first statement is the message
  \<^verbatim>\<open>Generating the image...\<close>. A request has been submitted: \<^verbatim>\<open>civitai.image.create\<close>
  has been called.
\<close>

definition generate_image_invoked :: "event list \<Rightarrow> bool" where
  "generate_image_invoked T \<longleftrightarrow> Feedback [Lit ''Generating the image...''] ''info'' \<in> set T"

fun is_image_create :: "call \<Rightarrow> bool" where
  "is_image_create (ImageCreate req) = True"
| "is_image_create _ = False"

definition submitted :: "event list \<Rightarrow> bool" where
  "submitted T \<longleftrightarrow> list_ex is_image_create (calls_of T)"


section \<open>Sample worlds\<close>

text \<open>A world without network: every call of a collaborator raises, every prompt is cancelled.\<close>

definition offline_world :: world where
  "offline_world =
     \<lparr> answer = (\<lambda>tr c. Inl (OtherError ''offline'')),
       ask_text = (\<lambda>tr m d. None),
       ask_select = (\<lambda>tr m cs. None),
       float_of_str = (\<lambda>s. None) \<rparr>"

text \<open>A world where every call answers with the same job record.\<close>

definition job_record :: pyval where
  "job_record = PDict [(PStr ''jobId'', PStr ''abc123'')]"

definition steady_world :: world where
  "steady_world =
     \<lparr> answer = (\<lambda>tr c. Inr job_record),
       ask_text = (\<lambda>tr m d. None),
       ask_select = (\<lambda>tr m cs. None),
       float_of_str = (\<lambda>s. None) \<rparr>"

text \<open>
  A studio: the metadata lookup knows a checkpoint with one version and, under the
  identifier 5, a LoRA; the normaliser returns the record as it is; a submission is
  answered with a job record. The operator types the positive prompt \<open>pos\<close> and the
  dimensions \<open>wh\<close>, 20 steps and a CFG scale of 7.5, and picks the first entry of every
  selection.
\<close>

definition checkpoint_version :: pyval where
  "checkpoint_version = PDict [(PStr ''id'', PInt 7), (PStr ''name'', PStr ''v1''), (PStr ''air'', PStr ''urn:air:7'')]"

definition checkpoint_model :: pyval where
  "checkpoint_model = PDict [(PStr ''type'', PStr ''Checkpoint''), (PStr ''versions'', PList [checkpoint_version])]"

definition lora_model :: pyval where
  "lora_model = PDict [(PStr ''type'', PStr ''LORA''), (PStr ''versions'', PList [PDict [(PStr ''air'', PStr ''urn:air:lora'')]])]"

fun studio_answer :: "event list \<Rightarrow> call \<Rightarrow> exn + pyval" where
  "studio_answer tr (GetModelDetails a b c) = (if a = PInt 5 then Inr lora_model else Inr checkpoint_model)"
| "studio_answer tr (ProcessModelData raw) = Inr raw"
| "studio_answer tr (ImageCreate req) = Inr job_record"
| "studio_answer tr _ = Inl (OtherError ''offline'')"

definition operator_text :: "string \<Rightarrow> string \<Rightarrow> event list \<Rightarrow> string \<Rightarrow> string \<Rightarrow> string option" where
  "operator_text pos wh tr message dflt =
     (if message = ''Enter positive prompt:'' then Some pos
      else if message = ''Enter negative prompt (optional):'' then Some []
      else if message = ''Enter width x height (e.g., 1024x1024):'' then Some wh
      else if message = ''Enter number of steps:'' then Some ''20''
      else Some ''7.5'')"

definition studio_world :: "string \<Rightarrow> string \<Rightarrow> world" where
  "studio_world pos wh =
     \<lparr> answer = studio_answer,
       ask_text = operator_text pos wh,
       ask_select = (\<lambda>tr m cs. Some 0),
       float_of_str = (\<lambda>s. if s = ''7.5'' then Some 0x401E000000000000 else None) \<rparr>"

text \<open>The requests and traces of the sample runs.\<close>

definition cat_params :: pyval where
  "cat_params =
     request_params (PStr ''a cat'') (PStr []) (PInt 1024) (PInt 1024) (PStr ''EulerA'') (PInt 20)
       (PFloat 0x401E000000000000)"

definition scheduler_choices :: "choice list" where
  "scheduler_choices = map (\<lambda>s. Choice [Lit s] (PStr s)) SCHEDULERS"

definition studio_prefix :: "event list" where
  "studio_prefix =
     [Called (GetModelDetails (PStr ''models'') (PStr ''versions'') (PInt 1)) (Inr checkpoint_model),
      Called (ProcessModelData checkpoint_model) (Inr checkpoint_model)]"

definition cat_questions :: "event list" where
  "cat_questions =
     [AskedText ''Enter positive prompt:'' [] (Some ''a cat''),
      AskedText ''Enter negative prompt (optional):'' [] (Some []),
      AskedText ''Enter width x height (e.g., 1024x1024):'' ''1024x1024'' (Some ''1024x1024''),
      AskedSelect ''Select scheduler:'' scheduler_choices (Some 0),
      AskedText ''Enter number of steps:'' [] (Some ''20''),
      AskedText ''Enter CFG scale:'' [] (Some ''7.5'')]"

definition cat_request :: pyval where
  "cat_request = PDict [(PStr ''model'', PStr ''urn:air:7''), (PStr ''params'', cat_params)]"

definition cat_submission :: "event list" where
  "cat_submission =
     [Feedback [Lit ''Generating the image...''] ''info'',
      Feedback [Lit ''Submitting image generation request...''] ''info'',
      ConsolePrint ''Input data:'',
      PrintJson cat_request,
      Called (ImageCreate cat_request) (Inr job_record),
      Feedback [Lit ''Image generation request submitted successfully.''] ''success'']"

definition cat_report :: "event list" where
  "cat_report =
     [ConsolePrint ''Image generation response:'',
      PrintJson job_record,
      Feedback [Lit ''An unexpected error occurred: '', Exc TypeError] ''error'']"

definition lora_request :: pyval where
  "lora_request =
     PDict [(PStr ''model'', PStr ''urn:air:7''), (PStr ''params'', cat_params),
            (PStr ''additionalNetworks'', PDict [(PStr ''urn:air:lora'', lora_entry)])]"

definition lora_submission :: "event list" where
  "lora_submission =
     [Feedback [Lit ''Generating the image...''] ''info'',
      Feedback [Lit ''Processing '', Val (PInt 2), Lit '' LoRA models...''] ''info'',
      Called (GetModelDetails (PInt 5) (PStr ''models'') (PStr ''versions'')) (Inr lora_model),
      Feedback [Lit ''Added LoRA: '', Val (PStr ''urn:air:lora'')] ''info'',
      Called (GetModelDetails (PInt 6) (PStr ''models'') (PStr ''versions'')) (Inr checkpoint_model),
      Feedback [Lit ''Model with ID '', Val (PStr ''versions''), Lit '' is not a LoRA.''] ''error'',
      Feedback [Lit ''Failed to get details for LoRA ID: '', Val (PInt 6)] ''warning'',
      Feedback [Lit ''Submitting image generation request...''] ''info'',
      ConsolePrint ''Input data:'',
      PrintJson lora_request,
      Called (ImageCreate lora_request) (Inr job_record),
      Feedback [Lit ''Image generation request submitted successfully.''] ''success'']"


section \<open>Basic facts\<close>

lemma exchanges_append [simp]: "exchanges (xs @ ys) = exchanges xs @ exchanges ys"
  by (induction xs rule: exchanges.induct) simp_all

lemma calls_of_append [simp]: "calls_of (xs @ ys) = calls_of xs @ calls_of ys"
  by (simp add: calls_of_def)

lemma calls_of_simps [simp]:
  "calls_of [] = []"
  "calls_of (Called c r # es) = c # calls_of es"
  "calls_of (AskedText m d a # es) = calls_of es"
  "calls_of (AskedSelect m cs n # es) = calls_of es"
  "calls_of (Feedback msg sev # es) = calls_of es"
  "calls_of (ConsolePrint s # es) = calls_of es"
  "calls_of (PrintJson v # es) = calls_of es"
  by (simp_all add: calls_of_def)

lemma Called_in_exchanges: "Called c r \<in> set es \<longleftrightarrow> (c, r) \<in> set (exchanges es)"
  by (induction es rule: exchanges.induct) auto

lemma Called_in_calls_of: "Called c r \<in> set es \<Longrightarrow> c \<in> set (calls_of es)"
  by (force simp: Called_in_exchanges calls_of_def)

lemmas prog_defs = ret_def raise_def lift_def pbind_def pthen_def try_except_def emit_def
  feedback_message_def console_print_def print_json_def call_def prompt_ask_def select_ask_def
  try_except_ValueError_def

lemma is_feedback_resolver: "is_feedback e \<Longrightarrow> resolver_event e"
  by (cases e) auto

lemma resolver_submitter: "resolver_event e \<Longrightarrow> submitter_event e"
  by (cases e rule: submitter_event.cases) auto

lemma feedback_no_exchanges: "list_all is_feedback msg \<Longrightarrow> exchanges msg = []"
  by (induction msg rule: exchanges.induct) simp_all

lemma set_dict_update:
  "(k', v') \<in> set (dict_update d k v) \<Longrightarrow> (k', v') \<in> set d \<or> (k' = k \<and> v' = v)"
  by (induction d k v rule: dict_update.induct) (auto split: if_splits)

lemma from_lookup_mono:
  "from_lookup M V ls es k \<Longrightarrow> set ls \<subseteq> set ls' \<Longrightarrow> set es \<subseteq> set es' \<Longrightarrow> from_lookup M V ls' es' k"
  unfolding from_lookup_def by blast

lemma parse_width_height_error: "parse_width_height s = Inl e \<Longrightarrow> e = ValueError"
  by (auto simp: parse_width_height_def split: list.splits option.splits if_splits)

section \<open>Rules for specifications\<close>

lemma satI: "(\<And>tr. \<exists>r es. m tr = (r, tr @ es) \<and> Q r es) \<Longrightarrow> sat m Q"
  by (simp add: sat_def)

lemma satD: "sat m Q \<Longrightarrow> \<exists>r es. m tr = (r, tr @ es) \<and> Q r es"
  by (simp add: sat_def)

lemma sat_run: "sat m Q \<Longrightarrow> Q (result_of m) (trace_of m)"
  using satD [of m Q "[]"] by (auto simp: result_of_def trace_of_def)

lemma sat_ret: "Q (Inr x) [] \<Longrightarrow> sat (ret x) Q"
  by (simp add: sat_def ret_def)

lemma sat_raise: "Q (Inl e) [] \<Longrightarrow> sat (raise e) Q"
  by (simp add: sat_def raise_def)

lemma sat_emit: "Q (Inr ()) [e] \<Longrightarrow> sat (emit e) Q"
  by (simp add: sat_def emit_def)

lemma sat_feedback: "Q (Inr ()) [Feedback msg sev] \<Longrightarrow> sat (feedback_message msg sev) Q"
  by (simp add: feedback_message_def sat_emit)

lemma sat_print_json: "Q (Inr ()) [PrintJson v] \<Longrightarrow> sat (print_json v) Q"
  by (simp add: print_json_def sat_emit)

lemma sat_bind:
  assumes "sat m Q1"
    and "\<And>x es1. Q1 (Inr x) es1 \<Longrightarrow> sat (f x) (\<lambda>r es2. Q r (es1 @ es2))"
    and "\<And>e es1. Q1 (Inl e) es1 \<Longrightarrow> Q (Inl e) es1"
  shows "sat (pbind m f) Q"
proof (rule satI)
  fix tr
  from assms(1) obtain r1 es1 where m: "m tr = (r1, tr @ es1)" and q1: "Q1 r1 es1"
    unfolding sat_def by blast
  show "\<exists>r es. pbind m f tr = (r, tr @ es) \<and> Q r es"
  proof (cases r1)
    case (Inl e)
    with m q1 assms(3) show ?thesis by (auto simp: pbind_def)
  next
    case (Inr x)
    with q1 assms(2) have "sat (f x) (\<lambda>r es2. Q r (es1 @ es2))" by simp
    then obtain r es2 where "f x (tr @ es1) = (r, (tr @ es1) @ es2)" "Q r (es1 @ es2)"
      unfolding sat_def by blast
    with m Inr show ?thesis by (auto simp: pbind_def)
  qed
qed

lemma sat_bind_call:
  assumes "\<And>x. sat (f x) (\<lambda>r es. Q r (Called c (Inr x) # es))"
    and "\<And>e. Q (Inl e) [Called c (Inl e)]"
  shows "sat (pbind (call w c) f) Q"
proof (rule sat_bind[where ?Q1.0 = "\<lambda>r es. es = [Called c r]"])
  show "sat (call w c) (\<lambda>r es. es = [Called c r])"
    by (simp add: sat_def call_def Let_def)
qed (use assms in auto)

lemma sat_bind_prompt:
  assumes "\<And>a. sat (f a) (\<lambda>r es. Q r (AskedText m d a # es))"
  shows "sat (pbind (prompt_ask w m d) f) Q"
proof (rule sat_bind[where ?Q1.0 = "\<lambda>r es. \<exists>a. r = Inr a \<and> es = [AskedText m d a]"])
  show "sat (prompt_ask w m d) (\<lambda>r es. \<exists>a. r = Inr a \<and> es = [AskedText m d a])"
    by (simp add: sat_def prompt_ask_def Let_def)
qed (use assms in auto)

lemma sat_bind_select:
  assumes "\<And>a. sat (f (chosen cs a)) (\<lambda>r es. Q r (AskedSelect m cs a # es))"
  shows "sat (pbind (select_ask w m cs) f) Q"
proof (rule sat_bind[where ?Q1.0 = "\<lambda>r es. \<exists>a. r = Inr (chosen cs a) \<and> es = [AskedSelect m cs a]"])
  show "sat (select_ask w m cs) (\<lambda>r es. \<exists>a. r = Inr (chosen cs a) \<and> es = [AskedSelect m cs a])"
    by (simp add: sat_def select_ask_def Let_def)
qed (use assms in auto)

lemma sat_bind_lift:
  assumes "\<And>x. v = Inr x \<Longrightarrow> sat (f x) Q"
    and "\<And>e. v = Inl e \<Longrightarrow> Q (Inl e) []"
  shows "sat (pbind (lift v) f) Q"
proof (rule sat_bind[where ?Q1.0 = "\<lambda>r es. r = v \<and> es = []"])
  show "sat (lift v) (\<lambda>r es. r = v \<and> es = [])"
    by (simp add: sat_def lift_def)
qed (use assms in auto)

lemma sat_bind_ret: "sat (f x) Q \<Longrightarrow> sat (pbind (ret x) f) Q"
  by (simp add: pbind_def ret_def sat_def)

lemma sat_bind_raise: "Q (Inl e) [] \<Longrightarrow> sat (pbind (raise e) f) Q"
  by (simp add: pbind_def raise_def sat_def)

lemma sat_pthen_emit:
  assumes "sat n (\<lambda>r es. Q r (e # es))"
  shows "sat (pthen (emit e) n) Q"
  unfolding pthen_def
proof (rule sat_bind[where ?Q1.0 = "\<lambda>r es. r = Inr () \<and> es = [e]"])
  show "sat (emit e) (\<lambda>r es. r = Inr () \<and> es = [e])"
    by (simp add: sat_def emit_def)
qed (use assms in auto)

lemma sat_pthen_feedback:
  "sat n (\<lambda>r es. Q r (Feedback msg sev # es)) \<Longrightarrow> sat (pthen (feedback_message msg sev) n) Q"
  by (simp add: feedback_message_def sat_pthen_emit)

lemma sat_pthen_console:
  "sat n (\<lambda>r es. Q r (ConsolePrint s # es)) \<Longrightarrow> sat (pthen (console_print s) n) Q"
  by (simp add: console_print_def sat_pthen_emit)

lemma sat_pthen_print_json:
  "sat n (\<lambda>r es. Q r (PrintJson v # es)) \<Longrightarrow> sat (pthen (print_json v) n) Q"
  by (simp add: print_json_def sat_pthen_emit)

lemma pbind_pthen: "pbind (pthen m n) f = pthen m (pbind n f)"
  by (auto simp: fun_eq_iff pthen_def pbind_def split: prod.splits sum.splits)

lemma sat_bind_pthen: "sat (pthen m (pbind n f)) Q \<Longrightarrow> sat (pbind (pthen m n) f) Q"
  by (simp add: pbind_pthen)

lemma sat_if: "(c \<Longrightarrow> sat a Q) \<Longrightarrow> (\<not> c \<Longrightarrow> sat b Q) \<Longrightarrow> sat (if c then a else b) Q"
  by simp

lemma sat_case_option:
  "(x = None \<Longrightarrow> sat a Q) \<Longrightarrow> (\<And>y. x = Some y \<Longrightarrow> sat (f y) Q)
     \<Longrightarrow> sat (case x of None \<Rightarrow> a | Some y \<Rightarrow> f y) Q"
  by (cases x) simp_all

lemma sat_case_prod:
  "(\<And>a b. x = (a, b) \<Longrightarrow> sat (f a b) Q) \<Longrightarrow> sat (case x of (a, b) \<Rightarrow> f a b) Q"
  by (cases x) simp

lemma sat_try_except:
  assumes "sat m Q1"
    and "\<And>x es. Q1 (Inr x) es \<Longrightarrow> Q (Inr x) es"
    and "\<And>e es1. Q1 (Inl e) es1 \<Longrightarrow> sat (h e) (\<lambda>r es2. Q r (es1 @ es2))"
  shows "sat (try_except m h) Q"
proof (rule satI)
  fix tr
  from assms(1) obtain r1 es1 where m: "m tr = (r1, tr @ es1)" and q1: "Q1 r1 es1"
    unfolding sat_def by blast
  show "\<exists>r es. try_except m h tr = (r, tr @ es) \<and> Q r es"
  proof (cases r1)
    case (Inr x)
    with m q1 assms(2) show ?thesis by (auto simp: try_except_def)
  next
    case (Inl e)
    with q1 assms(3) have "sat (h e) (\<lambda>r es2. Q r (es1 @ es2))" by simp
    then obtain r es2 where "h e (tr @ es1) = (r, (tr @ es1) @ es2)" "Q r (es1 @ es2)"
      unfolding sat_def by blast
    with m Inl show ?thesis by (auto simp: try_except_def)
  qed
qed

text \<open>A conversion guarded by \<^verbatim>\<open>except ValueError\<close>, followed by the rest of the function.\<close>

lemma sat_bind_guard:
  assumes "\<And>x. v = Inr x \<Longrightarrow> sat (f (Some x)) Q"
    and "v = Inl ValueError \<Longrightarrow> sat (pbind h f) Q"
    and "\<And>e. v = Inl e \<Longrightarrow> e \<noteq> ValueError \<Longrightarrow> Q (Inl e) []"
  shows "sat (pbind (try_except_ValueError (pbind (lift v) (\<lambda>x. ret (Some x))) h) f) Q"
proof (cases v)
  case (Inr x)
  then have "pbind (try_except_ValueError (pbind (lift v) (\<lambda>x. ret (Some x))) h) f = f (Some x)"
    by (simp add: fun_eq_iff pbind_def try_except_ValueError_def lift_def ret_def)
  with assms(1) Inr show ?thesis by simp
next
  case (Inl e)
  show ?thesis
  proof (cases "e = ValueError")
    case True
    with Inl have "pbind (try_except_ValueError (pbind (lift v) (\<lambda>x. ret (Some x))) h) f = pbind h f"
      by (simp add: fun_eq_iff pbind_def try_except_ValueError_def lift_def ret_def)
    with assms(2) Inl True show ?thesis by simp
  next
    case False
    with Inl have "pbind (try_except_ValueError (pbind (lift v) (\<lambda>x. ret (Some x))) h) f = raise e"
      by (simp add: fun_eq_iff pbind_def try_except_ValueError_def lift_def ret_def raise_def)
    with assms(3) Inl False show ?thesis by (simp add: sat_raise)
  qed
qed

lemmas sat_steps = sat_bind_call sat_bind_prompt sat_bind_select sat_bind_lift
  sat_pthen_feedback sat_pthen_console sat_pthen_print_json sat_if sat_ret sat_raise
  sat_feedback sat_print_json sat_bind_ret sat_bind_raise

section \<open>The parts of the module meet their specifications\<close>

lemma get_lora_details_run:
  "\<exists>r msg. get_lora_details w a b c tr
       = (Inr r, tr @ [Called (GetModelDetails a b c) (answer w tr (GetModelDetails a b c))] @ msg)
      \<and> list_all is_feedback msg
      \<and> (r = PNone \<or> (answer w tr (GetModelDetails a b c) = Inr r \<and> py_get r ''type'' = Inr (PStr ''LORA'')))"
  by (auto simp: get_lora_details_def prog_defs Let_def split: sum.splits)

lemma lora_step_run:
  "\<exists>r msg. lora_step w M V nets l tr
       = (r, tr @ [Called (GetModelDetails l M V) (answer w tr (GetModelDetails l M V))] @ msg)
      \<and> list_all is_feedback msg
      \<and> (\<forall>nets'. r = Inr nets' \<longrightarrow> nets' = nets \<or>
            (\<exists>rec vs v0 k. answer w tr (GetModelDetails l M V) = Inr rec \<and> py_get rec ''type'' = Inr (PStr ''LORA'')
                \<and> getitem_str rec ''versions'' = Inr vs
                \<and> getitem_0 vs = Inr v0 \<and> py_get v0 ''air'' = Inr k \<and> setitem nets k lora_entry = Inr nets'))"
proof -
  obtain r msg where g: "get_lora_details w l M V tr
         = (Inr r, tr @ [Called (GetModelDetails l M V) (answer w tr (GetModelDetails l M V))] @ msg)"
     "list_all is_feedback msg"
     "r = PNone \<or> (answer w tr (GetModelDetails l M V) = Inr r \<and> py_get r ''type'' = Inr (PStr ''LORA''))"
    using get_lora_details_run by blast
  show ?thesis
    unfolding lora_step_def
    using g
    by (auto simp: ret_def raise_def lift_def pbind_def pthen_def emit_def feedback_message_def
          split: sum.splits prod.splits)
qed

lemma lora_loop_run:
  "\<exists>r es n. lora_loop w M V nets ls tr = (r, tr @ es)
      \<and> list_all resolver_event es
      \<and> n \<le> length ls \<and> calls_of es = map (\<lambda>l. GetModelDetails l M V) (take n ls)
      \<and> (\<forall>nets'. r = Inr nets' \<longrightarrow> n = length ls \<and>
            (\<forall>k v. (k, v) \<in> set nets' \<longrightarrow> (k, v) \<in> set nets \<or> (v = lora_entry \<and> from_lookup M V ls es k)))"
proof (induction ls arbitrary: nets tr)
  case Nil
  show ?case by (auto simp: ret_def)
next
  case (Cons l ls)
  let ?a = "answer w tr (GetModelDetails l M V)"
  obtain r msg where s: "lora_step w M V nets l tr = (r, tr @ [Called (GetModelDetails l M V) ?a] @ msg)"
    and msg: "list_all is_feedback msg"
    and nets: "\<forall>nets'. r = Inr nets' \<longrightarrow> nets' = nets \<or>
            (\<exists>rec vs v0 k. ?a = Inr rec \<and> py_get rec ''type'' = Inr (PStr ''LORA'')
                \<and> getitem_str rec ''versions'' = Inr vs
                \<and> getitem_0 vs = Inr v0 \<and> py_get v0 ''air'' = Inr k \<and> setitem nets k lora_entry = Inr nets')"
    using lora_step_run by blast
  have cmsg: "calls_of msg = []"
    using feedback_no_exchanges [OF msg] by (simp add: calls_of_def)
  let ?es1 = "[Called (GetModelDetails l M V) ?a] @ msg"
  have cls1: "list_all resolver_event ?es1"
    using msg by (auto simp: list_all_iff is_feedback_resolver)
  show ?case
  proof (cases r)
    case (Inl e)
    have "lora_loop w M V nets (l # ls) tr = (Inl e, tr @ ?es1)"
      using s Inl by (simp add: pbind_def)
    moreover have "calls_of ?es1 = map (\<lambda>l. GetModelDetails l M V) (take 1 (l # ls))"
      using cmsg by simp
    ultimately show ?thesis
      using cls1 by (intro exI[of _ "Inl e"] exI[of _ ?es1] exI[of _ 1]) simp
  next
    case (Inr nets1)
    obtain r2 es2 n2 where l2: "lora_loop w M V nets1 ls (tr @ ?es1) = (r2, (tr @ ?es1) @ es2)"
      and cls2: "list_all resolver_event es2"
      and n2: "n2 \<le> length ls" "calls_of es2 = map (\<lambda>l. GetModelDetails l M V) (take n2 ls)"
      and r2: "\<forall>nets'. r2 = Inr nets' \<longrightarrow> n2 = length ls \<and>
            (\<forall>k v. (k, v) \<in> set nets' \<longrightarrow> (k, v) \<in> set nets1 \<or> (v = lora_entry \<and> from_lookup M V ls es2 k))"
      using Cons.IH[of nets1 "tr @ ?es1"] by blast
    have run: "lora_loop w M V nets (l # ls) tr = (r2, tr @ (?es1 @ es2))"
      using s Inr l2 by (simp add: pbind_def)
    have calls: "calls_of (?es1 @ es2) = map (\<lambda>l. GetModelDetails l M V) (take (Suc n2) (l # ls))"
      using cmsg n2 by simp
    have cls: "list_all resolver_event (?es1 @ es2)"
      using cls1 cls2 by simp
    have step: "v = lora_entry \<and> from_lookup M V (l # ls) (?es1 @ es2) k"
      if kv: "(k, v) \<in> set nets1" "(k, v) \<notin> set nets" for k v
    proof -
      from nets Inr have "nets1 = nets \<or>
            (\<exists>rec vs v0 k. ?a = Inr rec \<and> py_get rec ''type'' = Inr (PStr ''LORA'')
                \<and> getitem_str rec ''versions'' = Inr vs
                \<and> getitem_0 vs = Inr v0 \<and> py_get v0 ''air'' = Inr k \<and> setitem nets k lora_entry = Inr nets1)"
        by simp
      with kv obtain rec vs v0 k0 where a: "?a = Inr rec" "getitem_str rec ''versions'' = Inr vs"
          "py_get rec ''type'' = Inr (PStr ''LORA'')"
          "getitem_0 vs = Inr v0" "py_get v0 ''air'' = Inr k0" "setitem nets k0 lora_entry = Inr nets1"
        by auto
      from a(6) have "nets1 = dict_update nets k0 lora_entry"
        by (simp add: setitem_def split: if_splits)
      with kv set_dict_update[of k v nets k0 lora_entry] have "k = k0" "v = lora_entry" by auto
      moreover have "from_lookup M V (l # ls) (?es1 @ es2) k0"
        unfolding from_lookup_def using a by auto
      ultimately show ?thesis by simp
    qed
    have fin1: "Suc n2 = length (l # ls)" if r: "r2 = Inr nets'" for nets'
      using r2 r by simp
    have fin2: "(k, v) \<in> set nets \<or> (v = lora_entry \<and> from_lookup M V (l # ls) (?es1 @ es2) k)"
      if r: "r2 = Inr nets'" and kv: "(k, v) \<in> set nets'" for nets' k v
    proof -
      from r2 r kv have "(k, v) \<in> set nets1 \<or> (v = lora_entry \<and> from_lookup M V ls es2 k)" by auto
      then show ?thesis
      proof
        assume "(k, v) \<in> set nets1"
        with step[of k v] show ?thesis by auto
      next
        assume "v = lora_entry \<and> from_lookup M V ls es2 k"
        then show ?thesis using from_lookup_mono[of M V ls es2 k "l # ls" "?es1 @ es2"] by auto
      qed
    qed
    show ?thesis
      using run calls n2(1) fin1 fin2 cls
      by (intro exI[of _ r2] exI[of _ "?es1 @ es2"] exI[of _ "Suc n2"]) auto
  qed
qed

lemma generate_image_sat:
  "sat (generate_image w M V air pos neg wd ht sched steps cfg ls)
       (generate_image_post M V air pos neg wd ht sched steps cfg ls)"
proof (rule satI)
  fix tr
  let ?g = "Feedback [Lit ''Generating the image...''] ''info''"
  let ?sub = "Feedback [Lit ''Submitting image generation request...''] ''info''"
  let ?P = "generate_image_post M V air pos neg wd ht sched steps cfg ls"
  show "\<exists>r es. generate_image w M V air pos neg wd ht sched steps cfg ls tr = (r, tr @ es) \<and> ?P r es"
  proof (cases "ls = []")
    case True
    let ?req = "request air pos neg wd ht sched steps cfg ls []"
    let ?pre = "[?sub, ConsolePrint ''Input data:'', PrintJson ?req]"
    let ?a = "answer w (tr @ ?g # ?pre) (ImageCreate ?req)"
    let ?tail = "(case ?a of Inl e \<Rightarrow> [Feedback [Lit ''Error generating image: '', Exc e] ''error'']
                  | Inr x \<Rightarrow> [Feedback [Lit ''Image generation request submitted successfully.''] ''success''])"
    let ?es = "?pre @ [Called (ImageCreate ?req) ?a] @ ?tail"
    let ?r = "case ?a of Inl e \<Rightarrow> PNone | Inr x \<Rightarrow> x"
    have run: "generate_image w M V air pos neg wd ht sched steps cfg ls tr = (Inr ?r, tr @ ?g # ?es)"
      using True
      by (simp add: generate_image_def request_def prog_defs Let_def split: sum.splits)
    have tail: "exchanges ?tail = []" "list_all submitter_event ?tail"
      by (simp_all split: sum.splits)
    have "?P (Inr ?r) (?g # ?es)"
      unfolding generate_image_post_def
      apply (rule exI[of _ ?r])
      apply (rule exI[of _ ?es])
      apply (rule exI[of _ 0])
      apply (intro conjI)
          apply simp
         apply simp
        apply (use tail in simp)
       apply simp
      apply (rule disjI2)
      apply (rule exI[of _ "[]"])
      apply (rule exI[of _ ?a])
      using True tail apply (simp add: calls_of_def)
      done
    with run show ?thesis by blast
  next
    case False
    let ?p = "Feedback [Lit ''Processing '', Val (PInt (int (length ls))), Lit '' LoRA models...''] ''info''"
    obtain r1 es1 n where loop: "lora_loop w M V [] ls (tr @ [?g, ?p]) = (r1, (tr @ [?g, ?p]) @ es1)"
      and cls1: "list_all resolver_event es1"
      and n: "n \<le> length ls" "calls_of es1 = map (\<lambda>l. GetModelDetails l M V) (take n ls)"
      and r1: "\<forall>nets'. r1 = Inr nets' \<longrightarrow> n = length ls \<and>
              (\<forall>k v. (k, v) \<in> set nets' \<longrightarrow> (k, v) \<in> set [] \<or> (v = lora_entry \<and> from_lookup M V ls es1 k))"
      using lora_loop_run[of w M V "[]" ls "tr @ [?g, ?p]"] by blast
    have cls1': "list_all submitter_event es1"
      using cls1 by (auto simp: list_all_iff resolver_submitter)
    show ?thesis
    proof (cases r1)
      case (Inl e)
      let ?es = "?p # es1 @ [Feedback [Lit ''Error generating image: '', Exc e] ''error'']"
      have run: "generate_image w M V air pos neg wd ht sched steps cfg ls tr = (Inr PNone, tr @ ?g # ?es)"
        using False loop Inl
        by (simp add: generate_image_def prog_defs Let_def)
      have "?P (Inr PNone) (?g # ?es)"
        unfolding generate_image_post_def
        using n cls1'
        by (intro exI[of _ PNone] exI[of _ ?es] exI[of _ n]) simp
      with run show ?thesis by blast
    next
      case (Inr nets)
      let ?req = "request air pos neg wd ht sched steps cfg ls nets"
      let ?mid = "[?sub, ConsolePrint ''Input data:'', PrintJson ?req]"
      let ?a = "answer w (tr @ [?g, ?p] @ es1 @ ?mid) (ImageCreate ?req)"
      let ?tail = "(case ?a of Inl e \<Rightarrow> [Feedback [Lit ''Error generating image: '', Exc e] ''error'']
                    | Inr x \<Rightarrow> [Feedback [Lit ''Image generation request submitted successfully.''] ''success''])"
      let ?es = "?p # es1 @ ?mid @ [Called (ImageCreate ?req) ?a] @ ?tail"
      let ?r = "case ?a of Inl e \<Rightarrow> PNone | Inr x \<Rightarrow> x"
      have run: "generate_image w M V air pos neg wd ht sched steps cfg ls tr = (Inr ?r, tr @ ?g # ?es)"
        using False loop Inr
        by (simp add: generate_image_def request_def prog_defs Let_def split: sum.splits)
      have nn: "n = length ls"
        and nets: "\<forall>k v. (k, v) \<in> set nets \<longrightarrow> v = lora_entry \<and> from_lookup M V ls es1 k"
        using r1 Inr by auto
      have tail: "exchanges ?tail = []" "list_all submitter_event ?tail"
        by (simp_all split: sum.splits)
      have calls: "calls_of ?es = map (\<lambda>l. GetModelDetails l M V) ls @ [ImageCreate ?req]"
        using n nn tail by (simp add: calls_of_def)
      have lst: "last (exchanges ?es) = (ImageCreate ?req, ?a)"
        using tail by simp
      have nets': "\<forall>k v. (k, v) \<in> set nets \<longrightarrow> v = lora_entry \<and> from_lookup M V ls ?es k"
        using nets from_lookup_mono[of M V ls es1 _ ls ?es] by auto
      have cls: "list_all submitter_event ?es"
        using cls1' tail by simp
      have "?P (Inr ?r) (?g # ?es)"
        unfolding generate_image_post_def
        apply (rule exI[of _ ?r])
        apply (rule exI[of _ ?es])
        apply (rule exI[of _ n])
        apply (intro conjI)
            apply simp
           apply simp
          apply (rule cls)
         apply (rule n)
        apply (rule disjI2)
        apply (rule exI[of _ nets])
        apply (rule exI[of _ ?a])
        using calls lst nets' apply simp
        done
      with run show ?thesis by blast
    qed
  qed
qed

lemma select_version_sat: "sat (select_version w M V rm) (select_version_post M V rm)"
  unfolding select_version_def Let_def
  apply (intro sat_steps)
  apply (auto simp: select_version_post_def)
  done

lemma collect_parameters_sat: "sat (collect_parameters w) (collect_parameters_post w)"
  unfolding collect_parameters_def
  apply (intro sat_steps sat_bind_guard sat_bind_pthen sat_case_option sat_case_prod
      | simp only: option.case prod.case)+
  apply (auto simp: collect_parameters_post_def text_value_def width_height_of_answer_def
      int_of_answer_def float_of_answer_def split: option.splits dest: parse_width_height_error)
  done

lemma report_response_sat: "sat (report_response w response) (report_response_post response)"
  unfolding report_response_def call_fetch_job_details_def
  apply (intro sat_steps | simp only: list.case)+
  apply (auto simp: report_response_post_def)
  done

section \<open>The runs of \<^verbatim>\<open>create_image_cli\<close>\<close>

lemma generate_image_post_Inr:
  "generate_image_post M V air pos neg wd ht sched steps cfg ls r es \<Longrightarrow> \<exists>resp. r = Inr resp"
  unfolding generate_image_post_def by blast

lemma create_image_cli_body_sat:
  "sat (pbind (select_version w M V rm) (\<lambda>arn.
          case arn of
            None \<Rightarrow> ret ()
          | Some arn \<Rightarrow>
              pbind (collect_parameters w) (\<lambda>ps.
                case ps of
                  None \<Rightarrow> ret ()
                | Some (pos_prompt, neg_prompt, width, height, scheduler, steps, cfg_scale) \<Rightarrow>
                    pbind (generate_image w M V arn pos_prompt neg_prompt
                             width height scheduler steps cfg_scale ll) (\<lambda>response.
                      report_response w response))))
       (body_post w M V rm ll)"
proof (rule sat_bind [OF select_version_sat])
  fix e es1
  assume "select_version_post M V rm (Inl e) es1"
  then show "body_post w M V rm ll (Inl e) es1"
    by (rule body_post.select_raised)
next
  fix x es1
  assume sv: "select_version_post M V rm (Inr x) es1"
  show "sat (case x of
            None \<Rightarrow> ret ()
          | Some arn \<Rightarrow>
              pbind (collect_parameters w) (\<lambda>ps.
                case ps of
                  None \<Rightarrow> ret ()
                | Some (pos_prompt, neg_prompt, width, height, scheduler, steps, cfg_scale) \<Rightarrow>
                    pbind (generate_image w M V arn pos_prompt neg_prompt
                             width height scheduler steps cfg_scale ll) (\<lambda>response.
                      report_response w response)))
         (\<lambda>r es2. body_post w M V rm ll r (es1 @ es2))"
  proof (cases x)
    case None
    with sv have "body_post w M V rm ll (Inr ()) (es1 @ [])"
      by (simp add: body_post.select_returned)
    with None show ?thesis by (simp add: sat_ret)
  next
    case (Some arn)
    have "sat (pbind (collect_parameters w) (\<lambda>ps.
                case ps of
                  None \<Rightarrow> ret ()
                | Some (pos_prompt, neg_prompt, width, height, scheduler, steps, cfg_scale) \<Rightarrow>
                    pbind (generate_image w M V arn pos_prompt neg_prompt
                             width height scheduler steps cfg_scale ll) (\<lambda>response.
                      report_response w response)))
         (\<lambda>r es2. body_post w M V rm ll r (es1 @ es2))"
    proof (rule sat_bind [OF collect_parameters_sat])
      fix e es2
      assume "collect_parameters_post w (Inl e) es2"
      with sv Some show "body_post w M V rm ll (Inl e) (es1 @ es2)"
        by (simp add: body_post.collect_raised)
    next
      fix ps es2
      assume cp: "collect_parameters_post w (Inr ps) es2"
      show "sat (case ps of
                  None \<Rightarrow> ret ()
                | Some (pos_prompt, neg_prompt, width, height, scheduler, steps, cfg_scale) \<Rightarrow>
                    pbind (generate_image w M V arn pos_prompt neg_prompt
                             width height scheduler steps cfg_scale ll) (\<lambda>response.
                      report_response w response))
             (\<lambda>r es3. body_post w M V rm ll r (es1 @ es2 @ es3))"
      proof (cases ps)
        case None
        with sv Some cp have "body_post w M V rm ll (Inr ()) (es1 @ es2 @ [])"
          by (simp add: body_post.collect_returned)
        with None show ?thesis by (simp add: sat_ret)
      next
        case ps: (Some p)
        obtain pos neg wd ht sched steps cfg where p: "p = (pos, neg, wd, ht, sched, steps, cfg)"
          by (cases p) auto
        have "sat (pbind (generate_image w M V arn pos neg wd ht sched steps cfg ll) (\<lambda>response.
                      report_response w response))
               (\<lambda>r es3. body_post w M V rm ll r (es1 @ es2 @ es3))"
        proof (rule sat_bind [OF generate_image_sat])
          fix e es3
          assume "generate_image_post M V arn pos neg wd ht sched steps cfg ll (Inl e) es3"
          then show "body_post w M V rm ll (Inl e) (es1 @ es2 @ es3)"
            using generate_image_post_Inr by blast
        next
          fix resp es3
          assume gi: "generate_image_post M V arn pos neg wd ht sched steps cfg ll (Inr resp) es3"
          show "sat (report_response w resp) (\<lambda>r es4. body_post w M V rm ll r (es1 @ es2 @ es3 @ es4))"
          proof (rule satI)
            fix tr
            obtain r es4 where rr: "report_response w resp tr = (r, tr @ es4)"
              and post: "report_response_post resp r es4"
              using satD [OF report_response_sat] by blast
            have "body_post w M V rm ll r (es1 @ es2 @ es3 @ es4)"
              using sv Some cp ps p gi post by (simp add: body_post.generated)
            with rr show "\<exists>r es. report_response w resp tr = (r, tr @ es)
                \<and> body_post w M V rm ll r (es1 @ es2 @ es3 @ es)"
              by blast
          qed
        qed
        with ps p show ?thesis by simp
      qed
    qed
    with Some show ?thesis by simp
  qed
qed

lemma create_image_cli_sat:
  "sat (create_image_cli w M V rm ll) (create_image_cli_post w M V rm ll)"
  unfolding create_image_cli_def
proof (rule sat_try_except [OF create_image_cli_body_sat])
  fix x es
  assume "body_post w M V rm ll (Inr x) es"
  then show "create_image_cli_post w M V rm ll (Inr x) es"
    unfolding create_image_cli_post_def
    by (intro conjI exI[of _ "Inr x"] exI[of _ es]) simp_all
next
  fix e es1
  assume b: "body_post w M V rm ll (Inl e) es1"
  have "create_image_cli_post w M V rm ll (Inr ()) (es1 @ [unexpected e])"
    unfolding create_image_cli_post_def
    using b by (intro conjI exI[of _ "Inl e"] exI[of _ es1]) simp_all
  then show "sat (feedback_message [Lit ''An unexpected error occurred: '', Exc e] ''error'')
          (\<lambda>r es2. create_image_cli_post w M V rm ll r (es1 @ es2))"
    by (simp add: sat_feedback unexpected_def)
qed

lemma create_image_cli_run:
  "create_image_cli_post w M V rm ll (result_of (create_image_cli w M V rm ll))
     (trace_of (create_image_cli w M V rm ll))"
  by (rule sat_run [OF create_image_cli_sat])

lemma create_image_cli_result: "result_of (create_image_cli w M V rm ll) = Inr ()"
  using create_image_cli_run [of w M V rm ll] by (simp add: create_image_cli_post_def)

text \<open>The shape of every run of the function.\<close>

lemma create_image_cli_cases:
  assumes "\<And>e es1. select_version_post M V rm (Inl e) es1
              \<Longrightarrow> trace_of (create_image_cli w M V rm ll) = es1 @ [unexpected e] \<Longrightarrow> P"
    and "\<And>es1. select_version_post M V rm (Inr None) es1
              \<Longrightarrow> trace_of (create_image_cli w M V rm ll) = es1 \<Longrightarrow> P"
    and "\<And>arn es1 e es2. select_version_post M V rm (Inr (Some arn)) es1
              \<Longrightarrow> collect_parameters_post w (Inl e) es2
              \<Longrightarrow> trace_of (create_image_cli w M V rm ll) = es1 @ es2 @ [unexpected e] \<Longrightarrow> P"
    and "\<And>arn es1 es2. select_version_post M V rm (Inr (Some arn)) es1
              \<Longrightarrow> collect_parameters_post w (Inr None) es2
              \<Longrightarrow> trace_of (create_image_cli w M V rm ll) = es1 @ es2 \<Longrightarrow> P"
    and "\<And>arn es1 pos neg wd ht sched steps cfg es2 resp es3 r4 es4.
              select_version_post M V rm (Inr (Some arn)) es1
              \<Longrightarrow> collect_parameters_post w (Inr (Some (pos, neg, wd, ht, sched, steps, cfg))) es2
              \<Longrightarrow> generate_image_post M V arn pos neg wd ht sched steps cfg ll (Inr resp) es3
              \<Longrightarrow> report_response_post resp r4 es4
              \<Longrightarrow> trace_of (create_image_cli w M V rm ll)
                    = es1 @ es2 @ es3 @ es4 @ (case r4 of Inl e \<Rightarrow> [unexpected e] | Inr u \<Rightarrow> [])
              \<Longrightarrow> P"
  shows P
proof -
  let ?T = "trace_of (create_image_cli w M V rm ll)"
  from create_image_cli_run [of w M V rm ll]
  obtain rb Tb where b: "body_post w M V rm ll rb Tb"
    and T: "?T = Tb @ (case rb of Inl e \<Rightarrow> [unexpected e] | Inr u \<Rightarrow> [])"
    unfolding create_image_cli_post_def by blast
  from b show P
  proof cases
    case (select_raised e)
    with T show P by (intro assms(1) [of e Tb]) simp_all
  next
    case select_returned
    with T show P by (intro assms(2) [of Tb]) simp_all
  next
    case (collect_raised arn es1 e es2)
    with T show P by (intro assms(3) [of arn es1 e es2]) simp_all
  next
    case (collect_returned arn es1 es2)
    with T show P by (intro assms(4) [of arn es1 es2]) simp_all
  next
    case (generated arn es1 pos neg wd ht sched steps cfg es2 resp es3 es4)
    with T show P
      by (intro assms(5) [of arn es1 pos neg wd ht sched steps cfg es2 resp es3 rb es4]) simp_all
  qed
qed

section \<open>The form of the dimensions\<close>












section \<open>Facts about the events of each part\<close>

lemma invoked_append [simp]:
  "generate_image_invoked (xs @ ys) \<longleftrightarrow> generate_image_invoked xs \<or> generate_image_invoked ys"
  by (auto simp: generate_image_invoked_def)

lemma submitted_append [simp]: "submitted (xs @ ys) \<longleftrightarrow> submitted xs \<or> submitted ys"
  by (auto simp: submitted_def)

lemma submitted_iff: "submitted T \<longleftrightarrow> (\<exists>req res. Called (ImageCreate req) res \<in> set T)"
proof
  assume "submitted T"
  then obtain c where c: "c \<in> set (calls_of T)" "is_image_create c"
    by (auto simp: submitted_def list_ex_iff)
  from c(2) obtain req where "c = ImageCreate req" by (cases c) simp_all
  with c(1) obtain res where "(ImageCreate req, res) \<in> set (exchanges T)"
    by (auto simp: calls_of_def)
  then show "\<exists>req res. Called (ImageCreate req) res \<in> set T"
    unfolding Called_in_exchanges by blast
next
  assume "\<exists>req res. Called (ImageCreate req) res \<in> set T"
  then obtain req res where "Called (ImageCreate req) res \<in> set T" by blast
  then have "ImageCreate req \<in> set (calls_of T)" by (rule Called_in_calls_of)
  then show "submitted T"
    unfolding submitted_def list_ex_iff by (rule bexI [rotated]) simp
qed

lemma unexpected_facts [simp]:
  "\<not> generate_image_invoked [unexpected e]" "\<not> submitted [unexpected e]" "calls_of [unexpected e] = []"
  by (simp_all add: generate_image_invoked_def submitted_def unexpected_def)

lemma selector_calls: "list_all selector_event es \<Longrightarrow> filter is_network_call (calls_of es) = []"
proof (induction es)
  case Nil
  show ?case by simp
next
  case (Cons e es)
  then show ?case by (cases e rule: selector_event.cases) auto
qed

lemma selector_not_submitted: "list_all selector_event es \<Longrightarrow> \<not> submitted es"
  by (auto simp: submitted_iff list_all_iff)

lemma selector_not_invoked: "list_all selector_event es \<Longrightarrow> \<not> generate_image_invoked es"
  by (auto simp: generate_image_invoked_def list_all_iff)

lemma collector_calls: "list_all collector_event es \<Longrightarrow> calls_of es = []"
proof (induction es)
  case Nil
  show ?case by simp
next
  case (Cons e es)
  then show ?case by (cases e rule: collector_event.cases) auto
qed

lemma collector_not_invoked: "list_all collector_event es \<Longrightarrow> \<not> generate_image_invoked es"
  by (auto simp: generate_image_invoked_def list_all_iff)

lemma reporter_calls: "list_all reporter_event es \<Longrightarrow> calls_of es = []"
proof (induction es)
  case Nil
  show ?case by simp
next
  case (Cons e es)
  then show ?case by (cases e rule: reporter_event.cases) auto
qed

lemma no_calls_not_submitted: "calls_of es = [] \<Longrightarrow> \<not> submitted es"
  by (simp add: submitted_def)

lemma no_calls_no_Called: "calls_of es = [] \<Longrightarrow> Called c r \<notin> set es"
  using Called_in_calls_of [of c r es] by auto

section \<open>The sample runs\<close>

lemma py_int_20: "py_int ''20'' = Some 20"
  by code_simp

lemma parse_1024: "parse_width_height ''1024x1024'' = Inr (1024, 1024)"
  by code_simp


lemma chosen_first_scheduler: "chosen scheduler_choices (Some 0) = PStr ''EulerA''"
  by (simp add: scheduler_choices_def chosen_def SCHEDULERS_def)

lemmas world_defs = studio_world_def operator_text_def checkpoint_model_def checkpoint_version_def
  lora_model_def job_record_def

lemma studio_select_version:
  "select_version (studio_world pos wh) (PStr ''models'') (PStr ''versions'') (PInt 1) []
     = (Inr (Some (PStr ''urn:air:7'')), studio_prefix)"
  by (simp add: select_version_def prog_defs Let_def world_defs studio_prefix_def)

lemma studio_collect:
  "collect_parameters (studio_world ''a cat'' ''1024x1024'') studio_prefix
     = (Inr (Some (PStr ''a cat'', PStr [], PInt 1024, PInt 1024, PStr ''EulerA'', PInt 20, PFloat 0x401E000000000000)),
        studio_prefix @ cat_questions)"
  by (simp add: collect_parameters_def prog_defs Let_def studio_world_def operator_text_def text_value_def
      width_height_of_answer_def int_of_answer_def float_of_answer_def py_int_20 parse_1024
      chosen_first_scheduler cat_questions_def scheduler_choices_def [symmetric])

section \<open>What the specifications give\<close>

lemma generate_image_post_request:
  assumes "generate_image_post M V air pos neg wd ht sched steps cfg ls r es"
    and "Called (ImageCreate req) res \<in> set es"
  shows "\<exists>nets. req = request air pos neg wd ht sched steps cfg ls nets
           \<and> (\<forall>k v. (k, v) \<in> set nets \<longrightarrow> v = lora_entry \<and> from_lookup M V ls es k)
           \<and> r = Inr (case res of Inl e \<Rightarrow> PNone | Inr x \<Rightarrow> x)
           \<and> calls_of es = map (\<lambda>l. GetModelDetails l M V) ls @ [ImageCreate req]"
proof -
  let ?g = "Feedback [Lit ''Generating the image...''] ''info''"
  from assms(1) obtain r' es' n where r: "r = Inr r'" and es: "es = ?g # es'"
    and n: "n \<le> length ls"
    and alt: "(calls_of es' = map (\<lambda>l. GetModelDetails l M V) (take n ls) \<and> r' = PNone)
           \<or> (\<exists>nets a.
                 calls_of es' = map (\<lambda>l. GetModelDetails l M V) ls
                                  @ [ImageCreate (request air pos neg wd ht sched steps cfg ls nets)]
               \<and> last (exchanges es') = (ImageCreate (request air pos neg wd ht sched steps cfg ls nets), a)
               \<and> (\<forall>k v. (k, v) \<in> set nets \<longrightarrow> v = lora_entry \<and> from_lookup M V ls es' k)
               \<and> r' = (case a of Inl e \<Rightarrow> PNone | Inr x \<Rightarrow> x))"
    unfolding generate_image_post_def by blast
  from assms(2) es have mem: "(ImageCreate req, res) \<in> set (exchanges es')"
    by (simp add: Called_in_exchanges)
  then have memc: "ImageCreate req \<in> set (calls_of es')"
    by (force simp: calls_of_def)
  from alt show ?thesis
  proof
    assume "calls_of es' = map (\<lambda>l. GetModelDetails l M V) (take n ls) \<and> r' = PNone"
    with memc show ?thesis by auto
  next
    assume "\<exists>nets a.
                 calls_of es' = map (\<lambda>l. GetModelDetails l M V) ls
                                  @ [ImageCreate (request air pos neg wd ht sched steps cfg ls nets)]
               \<and> last (exchanges es') = (ImageCreate (request air pos neg wd ht sched steps cfg ls nets), a)
               \<and> (\<forall>k v. (k, v) \<in> set nets \<longrightarrow> v = lora_entry \<and> from_lookup M V ls es' k)
               \<and> r' = (case a of Inl e \<Rightarrow> PNone | Inr x \<Rightarrow> x)"
    then obtain nets a where
      calls: "calls_of es' = map (\<lambda>l. GetModelDetails l M V) ls
                 @ [ImageCreate (request air pos neg wd ht sched steps cfg ls nets)]"
      and lst: "last (exchanges es') = (ImageCreate (request air pos neg wd ht sched steps cfg ls nets), a)"
      and nets: "\<forall>k v. (k, v) \<in> set nets \<longrightarrow> v = lora_entry \<and> from_lookup M V ls es' k"
      and r': "r' = (case a of Inl e \<Rightarrow> PNone | Inr x \<Rightarrow> x)"
      by blast
    let ?req = "request air pos neg wd ht sched steps cfg ls nets"
    from calls have ne: "exchanges es' \<noteq> []" by (auto simp: calls_of_def)
    then have split: "exchanges es' = butlast (exchanges es') @ [(ImageCreate ?req, a)]"
      using lst by (metis append_butlast_last_id)
    have "butlast (map fst (exchanges es')) = map (\<lambda>l. GetModelDetails l M V) ls"
      using calls by (simp add: calls_of_def)
    then have bl: "map fst (butlast (exchanges es')) = map (\<lambda>l. GetModelDetails l M V) ls"
      by (simp add: map_butlast)
    have "(ImageCreate req, res) \<notin> set (butlast (exchanges es'))"
    proof
      assume "(ImageCreate req, res) \<in> set (butlast (exchanges es'))"
      then have "ImageCreate req \<in> set (map fst (butlast (exchanges es')))" by force
      with bl show False by auto
    qed
    with mem split have eq: "(ImageCreate req, res) = (ImageCreate ?req, a)"
      by (metis Un_iff empty_iff empty_set set_ConsD set_append)
    have "\<forall>k v. (k, v) \<in> set nets \<longrightarrow> v = lora_entry \<and> from_lookup M V ls es k"
      using nets es from_lookup_mono [of M V ls es' _ ls es] by auto
    with eq r r' calls es show ?thesis by auto
  qed
qed

lemma select_version_post_facts:
  assumes "select_version_post M V rm r es"
  shows "\<not> generate_image_invoked es" "\<not> submitted es"
    "filter is_network_call (calls_of es) = [GetModelDetails M V rm]"
    "AskedText m d a \<notin> set es" "ConsolePrint s \<notin> set es" "Called (JobsGet j) x \<notin> set es"
proof -
  from assms obtain a' es' where es: "es = Called (GetModelDetails M V rm) a' # es'"
    and cls: "list_all selector_event es'"
    unfolding select_version_post_def by blast
  show "\<not> generate_image_invoked es"
    using es selector_not_invoked [OF cls] by (simp add: generate_image_invoked_def)
  show "filter is_network_call (calls_of es) = [GetModelDetails M V rm]"
    using es selector_calls [OF cls] by simp
  show "\<not> submitted es"
    using es selector_not_submitted [OF cls] by (simp add: submitted_def)
  show "AskedText m d a \<notin> set es" "ConsolePrint s \<notin> set es" "Called (JobsGet j) x \<notin> set es"
    using es cls by (auto simp: list_all_iff)
qed

lemma collect_parameters_post_facts:
  assumes "collect_parameters_post w r es"
  shows "\<not> generate_image_invoked es" "calls_of es = []" "\<not> submitted es"
    "AskedSelect ''Select a version'' cs a \<notin> set es" "ConsolePrint s \<notin> set es"
proof -
  from assms have cls: "list_all collector_event es"
    unfolding collect_parameters_post_def by blast
  show "\<not> generate_image_invoked es" by (rule collector_not_invoked [OF cls])
  show c: "calls_of es = []" by (rule collector_calls [OF cls])
  then show "\<not> submitted es" by (rule no_calls_not_submitted)
  show "AskedSelect ''Select a version'' cs a \<notin> set es" "ConsolePrint s \<notin> set es"
    using cls by (auto simp: list_all_iff)
qed

lemma generate_image_post_facts:
  assumes "generate_image_post M V air pos neg wd ht sched steps cfg ls r es"
  shows "AskedText m d a \<notin> set es" "AskedSelect m cs n \<notin> set es"
    "Called (ProcessModelData raw) x \<notin> set es" "ConsolePrint ''Job details:'' \<notin> set es"
    "Called (JobsGet j) x \<notin> set es" "generate_image_invoked es"
proof -
  from assms obtain es' where es: "es = Feedback [Lit ''Generating the image...''] ''info'' # es'"
    and cls: "list_all submitter_event es'"
    unfolding generate_image_post_def by blast
  show "AskedText m d a \<notin> set es" "AskedSelect m cs n \<notin> set es"
    "Called (ProcessModelData raw) x \<notin> set es" "ConsolePrint ''Job details:'' \<notin> set es"
    "Called (JobsGet j) x \<notin> set es"
    using es cls by (auto simp: list_all_iff)
  show "generate_image_invoked es"
    using es by (simp add: generate_image_invoked_def)
qed

lemma report_response_post_facts:
  assumes "report_response_post resp r es"
  shows "calls_of es = []" "\<not> submitted es" "Called c x \<notin> set es"
    "AskedText m d a \<notin> set es" "AskedSelect m cs n \<notin> set es" "ConsolePrint ''Job details:'' \<notin> set es"
proof -
  from assms have cls: "list_all reporter_event es"
    unfolding report_response_post_def by blast
  show c: "calls_of es = []" by (rule reporter_calls [OF cls])
  then show "\<not> submitted es" by (rule no_calls_not_submitted)
  from c show "Called c x \<notin> set es" by (rule no_calls_no_Called)
  show "AskedText m d a \<notin> set es" "AskedSelect m cs n \<notin> set es" "ConsolePrint ''Job details:'' \<notin> set es"
    using cls by (auto simp: list_all_iff)
qed

section \<open>Interactive Collector: the claims\<close>


lemma studio_generate:
  "generate_image (studio_world pos wh) (PStr ''models'') (PStr ''versions'') (PStr ''urn:air:7'')
      (PStr ''a cat'') (PStr []) (PInt 1024) (PInt 1024) (PStr ''EulerA'') (PInt 20)
      (PFloat 0x401E000000000000) [] tr
     = (Inr job_record, tr @ cat_submission)"
  by (simp add: generate_image_def prog_defs Let_def studio_world_def cat_submission_def
      cat_request_def cat_params_def)

lemma report_job_record:
  "report_response w job_record tr
     = (Inl TypeError, tr @ [ConsolePrint ''Image generation response:'', PrintJson job_record])"
  by (simp add: report_response_def call_fetch_job_details_def prog_defs job_record_def)

lemma studio_cat_run:
  "create_image_cli (studio_world ''a cat'' ''1024x1024'') (PStr ''models'') (PStr ''versions'') (PInt 1) [] []
     = (Inr (), studio_prefix @ cat_questions @ cat_submission @ cat_report)"
  by (simp add: create_image_cli_def studio_select_version studio_collect studio_generate
      report_job_record pbind_def try_except_def feedback_message_def emit_def cat_report_def)

lemma studio_cat_trace:
  "trace_of (create_image_cli (studio_world ''a cat'' ''1024x1024'') (PStr ''models'') (PStr ''versions'') (PInt 1) [])
     = studio_prefix @ cat_questions @ cat_submission @ cat_report"
  by (simp add: trace_of_def studio_cat_run)









lemma select_version_post_single:
  assumes "select_version_post M V rm r es"
    and "Called (ProcessModelData raw) (Inr (PDict d)) \<in> set es"
    and "dict_lookup d (PStr ''versions'') = Some (PList [v])"
  shows "AskedSelect m cs a \<notin> set es"
    and "r = Inr x \<Longrightarrow> \<exists>arn. x = Some arn \<and> getitem_str v ''air'' = Inr arn"
proof -
  from assms(1) obtain a' es' where es: "es = Called (GetModelDetails M V rm) a' # es'"
    and single: "\<forall>raw d v. Called (ProcessModelData raw) (Inr (PDict d)) \<in> set es'
              \<and> dict_lookup d (PStr ''versions'') = Some (PList [v])
            \<longrightarrow> list_all (\<lambda>e. \<forall>m cs a. e \<noteq> AskedSelect m cs a) es'
                \<and> (\<forall>x. r = Inr x \<longrightarrow> (\<exists>arn. x = Some arn \<and> getitem_str v ''air'' = Inr arn))"
    unfolding select_version_post_def by blast
  from assms(2) es have "Called (ProcessModelData raw) (Inr (PDict d)) \<in> set es'" by simp
  with single assms(3) have 1: "list_all (\<lambda>e. \<forall>m cs a. e \<noteq> AskedSelect m cs a) es'"
    and 2: "\<forall>x. r = Inr x \<longrightarrow> (\<exists>arn. x = Some arn \<and> getitem_str v ''air'' = Inr arn)"
    by blast+
  from 1 es show "AskedSelect m cs a \<notin> set es" by (auto simp: list_all_iff)
  from 2 show "r = Inr x \<Longrightarrow> \<exists>arn. x = Some arn \<and> getitem_str v ''air'' = Inr arn" by blast
qed

lemma handler_events:
  "AskedText m d a \<notin> set (case r of Inl e \<Rightarrow> [unexpected e] | Inr u \<Rightarrow> [])"
  "AskedSelect m cs n \<notin> set (case r of Inl e \<Rightarrow> [unexpected e] | Inr u \<Rightarrow> [])"
  "Called c x \<notin> set (case r of Inl e \<Rightarrow> [unexpected e] | Inr u \<Rightarrow> [])"
  "ConsolePrint s \<notin> set (case r of Inl e \<Rightarrow> [unexpected e] | Inr u \<Rightarrow> [])"
  by (simp_all add: unexpected_def split: sum.splits)

text \<open>
  Claim C3. When the processed metadata of the model is a record whose \<^verbatim>\<open>versions\<close> is a
  list of exactly one version, the run asks for no version, and every request it submits
  has the \<^verbatim>\<open>air\<close> of that version as its \<^verbatim>\<open>model\<close>.
\<close>

theorem create_image_cli_single_version:
  assumes "Called (ProcessModelData raw) (Inr (PDict d)) \<in> set (trace_of (create_image_cli w M V rm ll))"
    and "dict_lookup d (PStr ''versions'') = Some (PList [v])"
  shows "(\<forall>cs a. AskedSelect ''Select a version'' cs a \<notin> set (trace_of (create_image_cli w M V rm ll)))
       \<and> (\<forall>req res. Called (ImageCreate req) res \<in> set (trace_of (create_image_cli w M V rm ll)) \<longrightarrow>
            (\<exists>air. getitem_str v ''air'' = Inr air \<and> getitem_str req ''model'' = Inr air))"
proof (rule create_image_cli_cases [of M V rm w ll])
  let ?T = "trace_of (create_image_cli w M V rm ll)"
  let ?p = "Called (ProcessModelData raw) (Inr (PDict d))"
  {
    fix e es1
    assume sv: "select_version_post M V rm (Inl e) es1" and T: "?T = es1 @ [unexpected e]"
    from assms(1) T have "?p \<in> set es1" by (simp add: unexpected_def)
    from select_version_post_single(1) [OF sv this assms(2)] select_version_post_facts(2) [OF sv] T
    show ?thesis by (auto simp: unexpected_def submitted_iff)
  next
    fix es1
    assume sv: "select_version_post M V rm (Inr None) es1" and T: "?T = es1"
    from assms(1) T have "?p \<in> set es1" by simp
    from select_version_post_single(1) [OF sv this assms(2)] select_version_post_facts(2) [OF sv] T
    show ?thesis by (auto simp: submitted_iff)
  next
    fix arn es1 e es2
    assume sv: "select_version_post M V rm (Inr (Some arn)) es1"
      and cp: "collect_parameters_post w (Inl e) es2"
      and T: "?T = es1 @ es2 @ [unexpected e]"
    from assms(1) T no_calls_no_Called [OF collect_parameters_post_facts(2) [OF cp]]
    have "?p \<in> set es1" by (auto simp: unexpected_def)
    from select_version_post_single(1) [OF sv this assms(2)] select_version_post_facts(2) [OF sv]
      collect_parameters_post_facts(3,4) [OF cp] T
    show ?thesis by (auto simp: unexpected_def submitted_iff)
  next
    fix arn es1 es2
    assume sv: "select_version_post M V rm (Inr (Some arn)) es1"
      and cp: "collect_parameters_post w (Inr None) es2"
      and T: "?T = es1 @ es2"
    from assms(1) T no_calls_no_Called [OF collect_parameters_post_facts(2) [OF cp]]
    have "?p \<in> set es1" by auto
    from select_version_post_single(1) [OF sv this assms(2)] select_version_post_facts(2) [OF sv]
      collect_parameters_post_facts(3,4) [OF cp] T
    show ?thesis by (auto simp: submitted_iff)
  next
    fix arn es1 pos neg wd ht sched steps cfg es2 resp es3 r4 es4
    assume sv: "select_version_post M V rm (Inr (Some arn)) es1"
      and cp: "collect_parameters_post w (Inr (Some (pos, neg, wd, ht, sched, steps, cfg))) es2"
      and gi: "generate_image_post M V arn pos neg wd ht sched steps cfg ll (Inr resp) es3"
      and rr: "report_response_post resp r4 es4"
      and T: "?T = es1 @ es2 @ es3 @ es4 @ (case r4 of Inl e \<Rightarrow> [unexpected e] | Inr u \<Rightarrow> [])"
    from assms(1) T no_calls_no_Called [OF collect_parameters_post_facts(2) [OF cp]]
      generate_image_post_facts(3) [OF gi] report_response_post_facts(3) [OF rr] handler_events(3) [where r = r4]
    have p: "?p \<in> set es1" by auto
    from select_version_post_single(2) [OF sv p assms(2), of "Some arn"]
    have air: "getitem_str v ''air'' = Inr arn" by simp
    have sel: "AskedSelect ''Select a version'' cs a \<notin> set ?T" for cs a
      using select_version_post_single(1) [OF sv p assms(2)] collect_parameters_post_facts(4) [OF cp]
        generate_image_post_facts(2) [OF gi] report_response_post_facts(5) [OF rr] handler_events(2) [where r = r4] T
      by auto
    have req: "getitem_str req ''model'' = Inr arn" if "Called (ImageCreate req) res \<in> set ?T" for req res
    proof -
      have "Called (ImageCreate req) res \<notin> set es1"
        using select_version_post_facts(2) [OF sv] by (auto simp: submitted_iff)
      with that T no_calls_no_Called [OF collect_parameters_post_facts(2) [OF cp]]
        report_response_post_facts(3) [OF rr] handler_events(3) [where r = r4]
      have "Called (ImageCreate req) res \<in> set es3" by auto
      from generate_image_post_request [OF gi this] show ?thesis
        by (auto simp: request_def)
    qed
    from air sel req show ?thesis by blast
  }
qed

theorem create_image_cli_single_version_witness:
  "Called (ProcessModelData checkpoint_model) (Inr checkpoint_model)
     \<in> set (trace_of (create_image_cli (studio_world ''a cat'' ''1024x1024'') (PStr ''models'') (PStr ''versions'') (PInt 1) []))
 \<and> dict_lookup [(PStr ''type'', PStr ''Checkpoint''), (PStr ''versions'', PList [checkpoint_version])] (PStr ''versions'')
      = Some (PList [checkpoint_version])
 \<and> Called (ImageCreate cat_request) (Inr job_record)
     \<in> set (trace_of (create_image_cli (studio_world ''a cat'' ''1024x1024'') (PStr ''models'') (PStr ''versions'') (PInt 1) []))
 \<and> getitem_str checkpoint_version ''air'' = Inr (PStr ''urn:air:7'')
 \<and> getitem_str cat_request ''model'' = Inr (PStr ''urn:air:7'')"
proof -
  let ?T = "trace_of (create_image_cli (studio_world ''a cat'' ''1024x1024'') (PStr ''models'') (PStr ''versions'') (PInt 1) [])"
  let ?d = "[(PStr ''type'', PStr ''Checkpoint''), (PStr ''versions'', PList [checkpoint_version])]"
  have p: "Called (ProcessModelData checkpoint_model) (Inr (PDict ?d)) \<in> set ?T"
    by (simp add: studio_cat_trace studio_prefix_def checkpoint_model_def)
  have v: "dict_lookup ?d (PStr ''versions'') = Some (PList [checkpoint_version])"
    by simp
  have c: "Called (ImageCreate cat_request) (Inr job_record) \<in> set ?T"
    by (simp add: studio_cat_trace cat_submission_def)
  from create_image_cli_single_version [OF p v] c
  obtain air where "getitem_str checkpoint_version ''air'' = Inr air"
    "getitem_str cat_request ''model'' = Inr air"
    by blast
  then show ?thesis
    using p v c by (simp add: checkpoint_model_def checkpoint_version_def cat_request_def)
qed

text \<open>
  Claim C4. When the answer to the positive prompt is empty (or the prompt is cancelled),
  the run ends with the message \<^verbatim>\<open>Positive prompt is required.\<close> of severity
  \<^verbatim>\<open>error\<close> and returns \<^verbatim>\<open>None\<close>; \<^verbatim>\<open>generate_image\<close> is not entered and no request is
  submitted.
\<close>

theorem create_image_cli_empty_prompt:
  assumes "AskedText ''Enter positive prompt:'' [] a \<in> set (trace_of (create_image_cli w M V rm ll))"
    and "a = Some [] \<or> a = None"
  shows "last (trace_of (create_image_cli w M V rm ll)) = Feedback [Lit ''Positive prompt is required.''] ''error''
       \<and> result_of (create_image_cli w M V rm ll) = Inr ()
       \<and> \<not> generate_image_invoked (trace_of (create_image_cli w M V rm ll))
       \<and> \<not> submitted (trace_of (create_image_cli w M V rm ll))"
proof -
  let ?T = "trace_of (create_image_cli w M V rm ll)"
  let ?ask = "AskedText ''Enter positive prompt:'' [] a"
  have rejected: "r = Inr None \<and> last es = Feedback [Lit ''Positive prompt is required.''] ''error'' \<and> es \<noteq> []"
    if "collect_parameters_post w r es" "?ask \<in> set es" for r es
    using that assms(2) unfolding collect_parameters_post_def by auto
  have "last ?T = Feedback [Lit ''Positive prompt is required.''] ''error''
       \<and> \<not> generate_image_invoked ?T \<and> \<not> submitted ?T"
  proof (rule create_image_cli_cases [of M V rm w ll])
    fix e es1
    assume "select_version_post M V rm (Inl e) es1" and "?T = es1 @ [unexpected e]"
    with assms(1) select_version_post_facts(4) [of M V rm "Inl e" es1] show ?thesis
      by (auto simp: unexpected_def)
  next
    fix es1
    assume "select_version_post M V rm (Inr None) es1" and "?T = es1"
    with assms(1) select_version_post_facts(4) [of M V rm "Inr None" es1] show ?thesis
      by auto
  next
    fix arn es1 e es2
    assume sv: "select_version_post M V rm (Inr (Some arn)) es1"
      and cp: "collect_parameters_post w (Inl e) es2"
      and T: "?T = es1 @ es2 @ [unexpected e]"
    from assms(1) T select_version_post_facts(4) [OF sv] have "?ask \<in> set es2"
      by (auto simp: unexpected_def)
    from rejected [OF cp this] show ?thesis by simp
  next
    fix arn es1 es2
    assume sv: "select_version_post M V rm (Inr (Some arn)) es1"
      and cp: "collect_parameters_post w (Inr None) es2"
      and T: "?T = es1 @ es2"
    from assms(1) T select_version_post_facts(4) [OF sv] have "?ask \<in> set es2"
      by auto
    from rejected [OF cp this]
    have "last es2 = Feedback [Lit ''Positive prompt is required.''] ''error''" "es2 \<noteq> []"
      by simp_all
    with T select_version_post_facts(1,2) [OF sv] collect_parameters_post_facts(1,3) [OF cp]
    show ?thesis by simp
  next
    fix arn es1 pos neg wd ht sched steps cfg es2 resp es3 r4 es4
    assume sv: "select_version_post M V rm (Inr (Some arn)) es1"
      and cp: "collect_parameters_post w (Inr (Some (pos, neg, wd, ht, sched, steps, cfg))) es2"
      and gi: "generate_image_post M V arn pos neg wd ht sched steps cfg ll (Inr resp) es3"
      and rr: "report_response_post resp r4 es4"
      and T: "?T = es1 @ es2 @ es3 @ es4 @ (case r4 of Inl e \<Rightarrow> [unexpected e] | Inr u \<Rightarrow> [])"
    from assms(1) T select_version_post_facts(4) [OF sv] generate_image_post_facts(1) [OF gi]
      report_response_post_facts(4) [OF rr] handler_events(1) [where r = r4]
    have "?ask \<in> set es2" by auto
    from rejected [OF cp this] show ?thesis by simp
  qed
  then show ?thesis by (simp add: create_image_cli_result)
qed

lemma studio_collect_empty:
  "collect_parameters (studio_world [] wh) studio_prefix
     = (Inr None,
        studio_prefix @
        [AskedText ''Enter positive prompt:'' [] (Some []),
         Feedback [Lit ''Positive prompt is required.''] ''error''])"
  by (simp add: collect_parameters_def prog_defs Let_def studio_world_def operator_text_def text_value_def)

lemma studio_empty_run:
  "create_image_cli (studio_world [] ''1024x1024'') (PStr ''models'') (PStr ''versions'') (PInt 1) [] []
     = (Inr (),
        studio_prefix @
        [AskedText ''Enter positive prompt:'' [] (Some []),
         Feedback [Lit ''Positive prompt is required.''] ''error''])"
  by (simp add: create_image_cli_def studio_select_version studio_collect_empty
      pbind_def try_except_def ret_def)

theorem create_image_cli_empty_prompt_witness:
  "AskedText ''Enter positive prompt:'' [] (Some [])
     \<in> set (trace_of (create_image_cli (studio_world [] ''1024x1024'') (PStr ''models'') (PStr ''versions'') (PInt 1) []))
 \<and> last (trace_of (create_image_cli (studio_world [] ''1024x1024'') (PStr ''models'') (PStr ''versions'') (PInt 1) []))
      = Feedback [Lit ''Positive prompt is required.''] ''error''
 \<and> \<not> submitted (trace_of (create_image_cli (studio_world [] ''1024x1024'') (PStr ''models'') (PStr ''versions'') (PInt 1) []))"
proof -
  let ?T = "trace_of (create_image_cli (studio_world [] ''1024x1024'') (PStr ''models'') (PStr ''versions'') (PInt 1) [])"
  have a: "AskedText ''Enter positive prompt:'' [] (Some []) \<in> set ?T"
    by (simp add: trace_of_def studio_empty_run)
  from create_image_cli_empty_prompt [OF a disjI1 [OF refl]] a
  show ?thesis by simp
qed

text \<open>
  Claim C9. A call of \<^verbatim>\<open>fetch_job_details\<close> with one argument raises a \<^verbatim>\<open>TypeError\<close>
  before the body runs. So no run of \<^verbatim>\<open>create_image_cli\<close> prints \<^verbatim>\<open>Job details:\<close> or
  looks a job up; and when the submission is answered with a dict that has the key
  \<^verbatim>\<open>jobId\<close>, the run ends with the message of the handler of line 281 for that
  \<^verbatim>\<open>TypeError\<close>, and returns \<^verbatim>\<open>None\<close>.
\<close>

theorem create_image_cli_job_lookup_never_runs:
  "call_fetch_job_details w [job_id] tr = (Inl TypeError, tr)
 \<and> ConsolePrint ''Job details:'' \<notin> set (trace_of (create_image_cli w M V rm ll))
 \<and> (\<forall>j r. Called (JobsGet j) r \<notin> set (trace_of (create_image_cli w M V rm ll)))
 \<and> (\<forall>req d. Called (ImageCreate req) (Inr (PDict d)) \<in> set (trace_of (create_image_cli w M V rm ll))
            \<and> dict_lookup d (PStr ''jobId'') \<noteq> None
      \<longrightarrow> last (trace_of (create_image_cli w M V rm ll))
            = Feedback [Lit ''An unexpected error occurred: '', Exc TypeError] ''error''
          \<and> result_of (create_image_cli w M V rm ll) = Inr ())"
proof -
  let ?T = "trace_of (create_image_cli w M V rm ll)"
  have arity: "call_fetch_job_details w [job_id] tr = (Inl TypeError, tr)"
    by (simp add: call_fetch_job_details_def raise_def)
  have "ConsolePrint ''Job details:'' \<notin> set ?T
      \<and> (\<forall>j r. Called (JobsGet j) r \<notin> set ?T)
      \<and> (\<forall>req d. Called (ImageCreate req) (Inr (PDict d)) \<in> set ?T \<and> dict_lookup d (PStr ''jobId'') \<noteq> None
            \<longrightarrow> last ?T = unexpected TypeError)"
  proof (rule create_image_cli_cases [of M V rm w ll])
    fix e es1
    assume sv: "select_version_post M V rm (Inl e) es1" and T: "?T = es1 @ [unexpected e]"
    from T select_version_post_facts(2,5,6) [OF sv] show ?thesis
      by (auto simp: unexpected_def submitted_iff)
  next
    fix es1
    assume sv: "select_version_post M V rm (Inr None) es1" and T: "?T = es1"
    from T select_version_post_facts(2,5,6) [OF sv] show ?thesis
      by (auto simp: submitted_iff)
  next
    fix arn es1 e es2
    assume sv: "select_version_post M V rm (Inr (Some arn)) es1"
      and cp: "collect_parameters_post w (Inl e) es2"
      and T: "?T = es1 @ es2 @ [unexpected e]"
    from T select_version_post_facts(2,5,6) [OF sv] collect_parameters_post_facts(5) [OF cp]
      no_calls_no_Called [OF collect_parameters_post_facts(2) [OF cp]]
    show ?thesis
      by (auto simp: unexpected_def submitted_iff)
  next
    fix arn es1 es2
    assume sv: "select_version_post M V rm (Inr (Some arn)) es1"
      and cp: "collect_parameters_post w (Inr None) es2"
      and T: "?T = es1 @ es2"
    from T select_version_post_facts(2,5,6) [OF sv] collect_parameters_post_facts(5) [OF cp]
      no_calls_no_Called [OF collect_parameters_post_facts(2) [OF cp]]
    show ?thesis
      by (auto simp: submitted_iff)
  next
    fix arn es1 pos neg wd ht sched steps cfg es2 resp es3 r4 es4
    assume sv: "select_version_post M V rm (Inr (Some arn)) es1"
      and cp: "collect_parameters_post w (Inr (Some (pos, neg, wd, ht, sched, steps, cfg))) es2"
      and gi: "generate_image_post M V arn pos neg wd ht sched steps cfg ll (Inr resp) es3"
      and rr: "report_response_post resp r4 es4"
      and T: "?T = es1 @ es2 @ es3 @ es4 @ (case r4 of Inl e \<Rightarrow> [unexpected e] | Inr u \<Rightarrow> [])"
    have 1: "ConsolePrint ''Job details:'' \<notin> set ?T"
      using T select_version_post_facts(5) [OF sv] collect_parameters_post_facts(5) [OF cp]
        generate_image_post_facts(4) [OF gi] report_response_post_facts(6) [OF rr]
        handler_events(4) [where r = r4]
      by auto
    have 2: "Called (JobsGet j) r \<notin> set ?T" for j r
      using T select_version_post_facts(6) [OF sv]
        no_calls_no_Called [OF collect_parameters_post_facts(2) [OF cp]]
        generate_image_post_facts(5) [OF gi] report_response_post_facts(3) [OF rr]
        handler_events(3) [where r = r4]
      by auto
    have 3: "last ?T = unexpected TypeError"
      if c: "Called (ImageCreate req) (Inr (PDict d)) \<in> set ?T" and j: "dict_lookup d (PStr ''jobId'') \<noteq> None"
      for req d
    proof -
      have "Called (ImageCreate req) (Inr (PDict d)) \<notin> set es1"
        using select_version_post_facts(2) [OF sv] by (auto simp: submitted_iff)
      with c T no_calls_no_Called [OF collect_parameters_post_facts(2) [OF cp]]
        report_response_post_facts(3) [OF rr] handler_events(3) [where r = r4]
      have "Called (ImageCreate req) (Inr (PDict d)) \<in> set es3" by auto
      from generate_image_post_request [OF gi this] have "resp = PDict d" by auto
      with rr j have "r4 = Inl TypeError"
        unfolding report_response_post_def by blast
      with T show ?thesis by simp
    qed
    from 1 2 3 show ?thesis by blast
  qed
  with arity show ?thesis
    by (simp add: create_image_cli_result unexpected_def)
qed

theorem create_image_cli_job_lookup_never_runs_witness:
  "Called (ImageCreate cat_request) (Inr (PDict [(PStr ''jobId'', PStr ''abc123'')]))
     \<in> set (trace_of (create_image_cli (studio_world ''a cat'' ''1024x1024'') (PStr ''models'') (PStr ''versions'') (PInt 1) []))
 \<and> dict_lookup [(PStr ''jobId'', PStr ''abc123'')] (PStr ''jobId'') \<noteq> None
 \<and> last (trace_of (create_image_cli (studio_world ''a cat'' ''1024x1024'') (PStr ''models'') (PStr ''versions'') (PInt 1) []))
      = Feedback [Lit ''An unexpected error occurred: '', Exc TypeError] ''error''"
proof -
  let ?T = "trace_of (create_image_cli (studio_world ''a cat'' ''1024x1024'') (PStr ''models'') (PStr ''versions'') (PInt 1) [])"
  have c: "Called (ImageCreate cat_request) (Inr (PDict [(PStr ''jobId'', PStr ''abc123'')])) \<in> set ?T"
    by (simp add: studio_cat_trace cat_submission_def job_record_def)
  have j: "dict_lookup [(PStr ''jobId'', PStr ''abc123'')] (PStr ''jobId'') \<noteq> None"
    by simp
  from create_image_cli_job_lookup_never_runs
    [of "studio_world ''a cat'' ''1024x1024''" PNone "[]" "PStr ''models''" "PStr ''versions''" "PInt 1" "[]"]
    c j
  show ?thesis by blast
qed

section \<open>LoRA Resolver and Request Submitter: the claims\<close>

lemma events_of_run: "m tr = (r, tr @ es) \<Longrightarrow> events_of m tr = es"
  by (simp add: events_of_def)

lemma generate_image_events:
  "\<exists>r. generate_image w M V air pos neg wd ht sched steps cfg ls tr
         = (Inr r, tr @ events_of (generate_image w M V air pos neg wd ht sched steps cfg ls) tr)
       \<and> generate_image_post M V air pos neg wd ht sched steps cfg ls (Inr r)
            (events_of (generate_image w M V air pos neg wd ht sched steps cfg ls) tr)"
proof -
  obtain r es where run: "generate_image w M V air pos neg wd ht sched steps cfg ls tr = (r, tr @ es)"
    and post: "generate_image_post M V air pos neg wd ht sched steps cfg ls r es"
    using satD [OF generate_image_sat] by blast
  from generate_image_post_Inr [OF post] obtain resp where "r = Inr resp" by blast
  moreover have "events_of (generate_image w M V air pos neg wd ht sched steps cfg ls) tr = es"
    using run by (simp add: events_of_def)
  ultimately show ?thesis using run post by auto
qed


lemma studio_generate_loras:
  "generate_image (studio_world pos wh) (PStr ''models'') (PStr ''versions'') (PStr ''urn:air:7'')
      (PStr ''a cat'') (PStr []) (PInt 1024) (PInt 1024) (PStr ''EulerA'') (PInt 20)
      (PFloat 0x401E000000000000) [PInt 5, PInt 6] []
     = (Inr job_record, lora_submission)"
  by (simp add: generate_image_def lora_step_def get_lora_details_def setitem_def prog_defs Let_def
      studio_world_def lora_model_def checkpoint_model_def lora_submission_def lora_request_def
      cat_params_def)

lemma studio_loras_events:
  "events_of (generate_image (studio_world pos wh) (PStr ''models'') (PStr ''versions'') (PStr ''urn:air:7'')
      (PStr ''a cat'') (PStr []) (PInt 1024) (PInt 1024) (PStr ''EulerA'') (PInt 20)
      (PFloat 0x401E000000000000) [PInt 5, PInt 6]) []
     = lora_submission"
  by (simp add: events_of_def studio_generate_loras)






text \<open>
  Claim C10. \<^verbatim>\<open>get_lora_details\<close> hands its parameters to the metadata lookup in the
  order it declares them: models, versions, identifier. The loop of \<^verbatim>\<open>generate_image\<close>
  calls it with \<^verbatim>\<open>(lora_id, CIVITAI_MODELS, CIVITAI_VERSIONS)\<close>, so the lookup for an entry
  of the list has the entry in the place of the models and \<^verbatim>\<open>CIVITAI_VERSIONS\<close> in the
  place of the identifier. The lookups of a run are those of the first entries of the list,
  in order; of all entries when the request is submitted.
\<close>

theorem generate_image_lookup_arguments:
  "calls_of (events_of (get_lora_details w CIVITAI_MODELS CIVITAI_VERSIONS lora_id) tr)
     = [GetModelDetails CIVITAI_MODELS CIVITAI_VERSIONS lora_id]
 \<and> calls_of (events_of (lora_step w M V networks lora_id) tr) = [GetModelDetails lora_id M V]
 \<and> (\<exists>n \<le> length ls.
       filter (\<lambda>c. \<not> is_image_create c)
         (calls_of (events_of (generate_image w M V air pos neg wd ht sched steps cfg ls) tr))
         = map (\<lambda>lora_id. GetModelDetails lora_id M V) (take n ls)
     \<and> (submitted (events_of (generate_image w M V air pos neg wd ht sched steps cfg ls) tr)
          \<longrightarrow> n = length ls))"
proof (intro conjI)
  from get_lora_details_run [of w CIVITAI_MODELS CIVITAI_VERSIONS lora_id tr]
  obtain r msg where run: "get_lora_details w CIVITAI_MODELS CIVITAI_VERSIONS lora_id tr
       = (Inr r, tr @ [Called (GetModelDetails CIVITAI_MODELS CIVITAI_VERSIONS lora_id)
                         (answer w tr (GetModelDetails CIVITAI_MODELS CIVITAI_VERSIONS lora_id))] @ msg)"
    and msg: "list_all is_feedback msg"
    by blast
  from feedback_no_exchanges [OF msg] have "calls_of msg = []" by (simp add: calls_of_def)
  with run show "calls_of (events_of (get_lora_details w CIVITAI_MODELS CIVITAI_VERSIONS lora_id) tr)
     = [GetModelDetails CIVITAI_MODELS CIVITAI_VERSIONS lora_id]"
    by (simp add: events_of_def)
next
  from lora_step_run [of w M V networks lora_id tr]
  obtain r msg where run: "lora_step w M V networks lora_id tr
       = (r, tr @ [Called (GetModelDetails lora_id M V) (answer w tr (GetModelDetails lora_id M V))] @ msg)"
    and msg: "list_all is_feedback msg"
    by blast
  from feedback_no_exchanges [OF msg] have "calls_of msg = []" by (simp add: calls_of_def)
  with run show "calls_of (events_of (lora_step w M V networks lora_id) tr) = [GetModelDetails lora_id M V]"
    by (simp add: events_of_def)
next
  let ?E = "events_of (generate_image w M V air pos neg wd ht sched steps cfg ls) tr"
  let ?gmd = "\<lambda>lora_id. GetModelDetails lora_id M V"
  from generate_image_events [of w M V air pos neg wd ht sched steps cfg ls tr]
  obtain r where post: "generate_image_post M V air pos neg wd ht sched steps cfg ls (Inr r) ?E"
    by blast
  then obtain es' n where es: "?E = Feedback [Lit ''Generating the image...''] ''info'' # es'"
    and n: "n \<le> length ls"
    and alt: "calls_of es' = map ?gmd (take n ls)
           \<or> (\<exists>nets. calls_of es' = map ?gmd ls
                  @ [ImageCreate (request air pos neg wd ht sched steps cfg ls nets)])"
    unfolding generate_image_post_def by blast
  have nf: "filter (\<lambda>c. \<not> is_image_create c) (map ?gmd xs) = map ?gmd xs" for xs
    by (induction xs) simp_all
  have ns: "\<not> list_ex is_image_create (map ?gmd xs)" for xs
    by (induction xs) simp_all
  from alt show "\<exists>n \<le> length ls.
       filter (\<lambda>c. \<not> is_image_create c) (calls_of ?E) = map ?gmd (take n ls)
     \<and> (submitted ?E \<longrightarrow> n = length ls)"
  proof
    assume c: "calls_of es' = map ?gmd (take n ls)"
    show ?thesis
      apply (rule exI [of _ n])
      using n c es nf [of "take n ls"] ns [of "take n ls"]
      apply (simp add: submitted_def)
      done
  next
    assume "\<exists>nets. calls_of es' = map ?gmd ls
                  @ [ImageCreate (request air pos neg wd ht sched steps cfg ls nets)]"
    then obtain nets where c: "calls_of es' = map ?gmd ls
                  @ [ImageCreate (request air pos neg wd ht sched steps cfg ls nets)]"
      by blast
    show ?thesis
      apply (rule exI [of _ "length ls"])
      using c es nf [of ls]
      apply simp
      done
  qed
qed

theorem generate_image_lookup_arguments_witness:
  "submitted (events_of (generate_image (studio_world ''a cat'' ''1024x1024'') (PStr ''models'') (PStr ''versions'')
       (PStr ''urn:air:7'') (PStr ''a cat'') (PStr []) (PInt 1024) (PInt 1024) (PStr ''EulerA'') (PInt 20)
       (PFloat 0x401E000000000000) [PInt 5, PInt 6]) [])
 \<and> filter (\<lambda>c. \<not> is_image_create c)
      (calls_of (events_of (generate_image (studio_world ''a cat'' ''1024x1024'') (PStr ''models'') (PStr ''versions'')
         (PStr ''urn:air:7'') (PStr ''a cat'') (PStr []) (PInt 1024) (PInt 1024) (PStr ''EulerA'') (PInt 20)
         (PFloat 0x401E000000000000) [PInt 5, PInt 6]) []))
     = [GetModelDetails (PInt 5) (PStr ''models'') (PStr ''versions''),
        GetModelDetails (PInt 6) (PStr ''models'') (PStr ''versions'')]"
proof -
  let ?E = "events_of (generate_image (studio_world ''a cat'' ''1024x1024'') (PStr ''models'') (PStr ''versions'')
       (PStr ''urn:air:7'') (PStr ''a cat'') (PStr []) (PInt 1024) (PInt 1024) (PStr ''EulerA'') (PInt 20)
       (PFloat 0x401E000000000000) [PInt 5, PInt 6]) []"
  have s: "submitted ?E"
    by (simp add: studio_loras_events lora_submission_def submitted_def)
  from generate_image_lookup_arguments
    [where w = "studio_world ''a cat'' ''1024x1024''" and M = "PStr ''models''" and V = "PStr ''versions''"
       and air = "PStr ''urn:air:7''" and pos = "PStr ''a cat''" and neg = "PStr []" and wd = "PInt 1024"
       and ht = "PInt 1024" and sched = "PStr ''EulerA''" and steps = "PInt 20"
       and cfg = "PFloat 0x401E000000000000" and ls = "[PInt 5, PInt 6]" and tr = "[]"]
  obtain n where "n \<le> length [PInt 5, PInt 6]"
    "filter (\<lambda>c. \<not> is_image_create c) (calls_of ?E)
       = map (\<lambda>lora_id. GetModelDetails lora_id (PStr ''models'') (PStr ''versions'')) (take n [PInt 5, PInt 6])"
    "submitted ?E \<longrightarrow> n = length [PInt 5, PInt 6]"
    by blast
  with s show ?thesis by simp
qed

section \<open>Job Reporter: the claims\<close>

text \<open>
  Claim C7, as amended. The lookup needs at least one of the two identifiers, and the job
  identifier wins: given a job identifier (a user identifier may be given as well), the
  only call is the fetch of that job; given no job identifier but a user identifier, the
  only call is the query of the jobs of that user, with the \<^verbatim>\<open>detailed\<close> flag passed on;
  given neither, the error \<^verbatim>\<open>Please provide either a job ID or a user ID.\<close> is
  reported and nothing is called.
\<close>

theorem fetch_job_details_dispatch:
  "(truthy job_id \<longrightarrow>
      calls_of (snd (fetch_job_details w job_id user_id detailed tr)) = calls_of tr @ [JobsGet job_id])
 \<and> (\<not> truthy job_id \<and> truthy user_id \<longrightarrow>
      calls_of (snd (fetch_job_details w job_id user_id detailed tr))
        = calls_of tr @ [JobsQuery detailed (PDict [(PStr ''properties'', PDict [(PStr ''userId'', user_id)])])])
 \<and> (\<not> truthy job_id \<and> \<not> truthy user_id \<longrightarrow>
      snd (fetch_job_details w job_id user_id detailed tr)
        = tr @ [Feedback [Lit ''Please provide either a job ID or a user ID.''] ''error''])"
  by (simp add: fetch_job_details_def prog_defs Let_def split: sum.splits)

theorem fetch_job_details_dispatch_witness:
  "truthy (PStr ''abc123'')
 \<and> calls_of (snd (fetch_job_details steady_world (PStr ''abc123'') PNone (PBool False) []))
      = [JobsGet (PStr ''abc123'')]
 \<and> \<not> truthy PNone \<and> truthy (PStr ''u1'')
 \<and> calls_of (snd (fetch_job_details steady_world PNone (PStr ''u1'') (PBool True) []))
      = [JobsQuery (PBool True) (PDict [(PStr ''properties'', PDict [(PStr ''userId'', PStr ''u1'')])])]
 \<and> snd (fetch_job_details steady_world PNone PNone (PBool False) [])
      = [Feedback [Lit ''Please provide either a job ID or a user ID.''] ''error'']"
  using fetch_job_details_dispatch [where w = steady_world and job_id = "PStr ''abc123''"
      and user_id = PNone and detailed = "PBool False" and tr = "[]"]
    fetch_job_details_dispatch [where w = steady_world and job_id = PNone
      and user_id = "PStr ''u1''" and detailed = "PBool True" and tr = "[]"]
    fetch_job_details_dispatch [where w = steady_world and job_id = PNone
      and user_id = PNone and detailed = "PBool False" and tr = "[]"]
  by simp

text \<open>
  Claim C7 as stated fails: with both a job identifier and a user identifier given, the
  lookup is not refused. The job is fetched and printed, and no error is reported.
\<close>

theorem fetch_job_details_both_given_counterexample:
  "truthy (PStr ''abc123'') \<and> truthy (PStr ''u1'')
 \<and> trace_of (fetch_job_details steady_world (PStr ''abc123'') (PStr ''u1'') (PBool False))
      = [Called (JobsGet (PStr ''abc123'')) (Inr job_record),
         ConsolePrint ''Job details:'',
         PrintJson job_record]"
  by (simp add: trace_of_def fetch_job_details_def prog_defs Let_def steady_world_def job_record_def)

text \<open>
  Claim C8. Both entry points of the Job Reporter return \<^verbatim>\<open>None\<close> and never raise,
  whatever the remote client does. When the remote call raises \<open>e\<close>, the trace grows by
  that call and one message of severity \<^verbatim>\<open>error\<close> that carries \<^verbatim>\<open>str(e)\<close>.
\<close>

theorem job_reporter_catches_exceptions:
  "fst (fetch_job_details w job_id user_id detailed tr) = Inr PNone
 \<and> fst (cancel_job w job_id tr) = Inr PNone
 \<and> (truthy job_id \<and> answer w tr (JobsGet job_id) = Inl e \<longrightarrow>
      snd (fetch_job_details w job_id user_id detailed tr)
        = tr @ [Called (JobsGet job_id) (Inl e),
                Feedback [Lit ''Error fetching job details: '', Exc e] ''error''])
 \<and> (\<not> truthy job_id \<and> truthy user_id
      \<and> answer w tr (JobsQuery detailed (PDict [(PStr ''properties'', PDict [(PStr ''userId'', user_id)])])) = Inl e \<longrightarrow>
      snd (fetch_job_details w job_id user_id detailed tr)
        = tr @ [Called (JobsQuery detailed (PDict [(PStr ''properties'', PDict [(PStr ''userId'', user_id)])])) (Inl e),
                Feedback [Lit ''Error fetching job details: '', Exc e] ''error''])
 \<and> (answer w tr (JobsCancel job_id) = Inl e \<longrightarrow>
      snd (cancel_job w job_id tr)
        = tr @ [Called (JobsCancel job_id) (Inl e),
                Feedback [Lit ''Error cancelling job: '', Exc e] ''error''])"
  by (simp add: fetch_job_details_def cancel_job_def prog_defs Let_def split: sum.splits)

theorem job_reporter_catches_exceptions_witness:
  "truthy (PStr ''abc123'')
 \<and> answer offline_world [] (JobsGet (PStr ''abc123'')) = Inl (OtherError ''offline'')
 \<and> fetch_job_details offline_world (PStr ''abc123'') PNone (PBool False) []
      = (Inr PNone, [Called (JobsGet (PStr ''abc123'')) (Inl (OtherError ''offline'')),
                     Feedback [Lit ''Error fetching job details: '', Exc (OtherError ''offline'')] ''error''])
 \<and> \<not> truthy PNone \<and> truthy (PStr ''u1'')
 \<and> fetch_job_details offline_world PNone (PStr ''u1'') (PBool False) []
      = (Inr PNone, [Called (JobsQuery (PBool False) (PDict [(PStr ''properties'', PDict [(PStr ''userId'', PStr ''u1'')])]))
                       (Inl (OtherError ''offline'')),
                     Feedback [Lit ''Error fetching job details: '', Exc (OtherError ''offline'')] ''error''])
 \<and> cancel_job offline_world (PStr ''abc123'') []
      = (Inr PNone, [Called (JobsCancel (PStr ''abc123'')) (Inl (OtherError ''offline'')),
                     Feedback [Lit ''Error cancelling job: '', Exc (OtherError ''offline'')] ''error''])"
  using job_reporter_catches_exceptions [where w = offline_world and job_id = "PStr ''abc123''"
      and user_id = PNone and detailed = "PBool False" and tr = "[]" and e = "OtherError ''offline''"]
    job_reporter_catches_exceptions [where w = offline_world and job_id = PNone
      and user_id = "PStr ''u1''" and detailed = "PBool False" and tr = "[]" and e = "OtherError ''offline''"]
  by (simp add: offline_world_def prod_eq_iff)

end
